theory Spec2Isabelle
  imports Complex_Main
begin

section \<open>The point-patch transformer encoder of \<^verbatim>\<open>pprl/models/ppt.py\<close>\<close>

text \<open>
  The module wires a tokenizer, a positional embedder, a transformer encoder and a pooling
  stage into one forward pass and optionally fuses auxiliary state vectors onto the pooled
  embedding. The embedding follows the Python text line by line. Exceptions are values of
  \<open>error\<close>. Everything outside the encoder's own fields that a call can read or change (the
  random generator, buffers of the sub-modules) is a world state of type \<open>'w\<close> that is
  threaded through every call in the order the source makes them.
\<close>

subsection \<open>Exceptions and the threading of the world state\<close>

datatype error =
    KeyError | AssertionError | IndexError | TypeError | AttributeError | RuntimeError

type_synonym ('w, 'a) action = "'w \<Rightarrow> (error + 'a) \<times> 'w"

definition return :: "'a \<Rightarrow> ('w, 'a) action" where
  "return x = (\<lambda>w. (Inr x, w))"

definition lift :: "error + 'a \<Rightarrow> ('w, 'a) action" where
  "lift r = (\<lambda>w. (r, w))"

text \<open>Sequencing of two statements: an exception of the first skips the second.\<close>

definition bindM :: "('w, 'a) action \<Rightarrow> ('a \<Rightarrow> ('w, 'b) action) \<Rightarrow> ('w, 'b) action" where
  "bindM m f = (\<lambda>w. case m w of (Inl e, w') \<Rightarrow> (Inl e, w') | (Inr x, w') \<Rightarrow> f x w')"

subsection \<open>Tensors\<close>

text \<open>
  The element types of tensors, and \<^verbatim>\<open>torch.promote_types\<close> on them: equal types stay,
  \<^verbatim>\<open>bool\<close> yields to anything, an integer yields to a float, the wider float wins
  (\<^verbatim>\<open>float16\<close> with \<^verbatim>\<open>bfloat16\<close> gives \<^verbatim>\<open>float32\<close>), the wider integer wins
  (\<^verbatim>\<open>uint8\<close> with \<^verbatim>\<open>int8\<close> gives \<^verbatim>\<open>int16\<close>).
\<close>

datatype dtype =
    Bool | UInt8 | Int8 | Int16 | Int32 | Int64 | Float16 | BFloat16 | Float32 | Float64

fun is_floating_point :: "dtype \<Rightarrow> bool" where
  "is_floating_point Float16 = True"
| "is_floating_point BFloat16 = True"
| "is_floating_point Float32 = True"
| "is_floating_point Float64 = True"
| "is_floating_point _ = False"

fun int_rank :: "dtype \<Rightarrow> nat" where
  "int_rank Int8 = 1"
| "int_rank Int16 = 2"
| "int_rank Int32 = 3"
| "int_rank Int64 = 4"
| "int_rank _ = 0"

definition promote_types :: "dtype \<Rightarrow> dtype \<Rightarrow> dtype" where
  "promote_types a b =
     (if a = b then a
      else if a = Bool then b
      else if b = Bool then a
      else if is_floating_point a \<and> is_floating_point b then
        (if a = Float64 \<or> b = Float64 then Float64 else Float32)
      else if is_floating_point a then a
      else if is_floating_point b then b
      else if a = UInt8 then (if b = Int8 then Int16 else b)
      else if b = UInt8 then (if a = Int8 then Int16 else a)
      else if int_rank a < int_rank b then b else a)"

text \<open>
  A tensor is its shape, its element type and its elements in row-major order. Element
  values are taken as reals; no definition below does arithmetic on them (the numeric
  kernels are parameters).
\<close>

record tensor =
  shape :: "nat list"
  dtype :: dtype
  data :: "real list"

text \<open>Row \<open>i\<close> of a tensor along its last axis.\<close>

definition row :: "tensor \<Rightarrow> nat \<Rightarrow> real list" where
  "row t i = take (last (shape t)) (drop (i * last (shape t)) (data t))"

text \<open>
  \<^verbatim>\<open>torch.concatenate(tensors, dim=-1)\<close> on a list of tensors: the list must not be empty,
  no tensor may be zero-dimensional, one-dimensional empty tensors (shape \<open>[0]\<close>) are
  skipped, and the others must agree on every axis but the last. The element type of the
  result is the promotion of the element types of all the tensors.
\<close>

definition result_type :: "tensor list \<Rightarrow> dtype" where
  "result_type ts = foldl promote_types (dtype (hd ts)) (map dtype (tl ts))"

definition cat :: "tensor list \<Rightarrow> error + tensor" where
  "cat ts =
     (if ts = [] then Inl RuntimeError
      else if list_ex (\<lambda>t. shape t = []) ts then Inl RuntimeError
      else (case filter (\<lambda>t. shape t \<noteq> [0]) ts of
              [] \<Rightarrow> Inr \<lparr>shape = [0], dtype = result_type ts, data = []\<rparr>
            | t # rest \<Rightarrow>
                if list_all (\<lambda>u. butlast (shape u) = butlast (shape t)) rest
                then Inr \<lparr>shape = butlast (shape t) @ [sum_list (map (\<lambda>u. last (shape u)) (t # rest))],
                         dtype = result_type ts,
                         data = concat (map (\<lambda>i. concat (map (\<lambda>u. row u i) (t # rest)))
                                            [0 ..< prod_list (butlast (shape t))])\<rparr>
                else Inl RuntimeError))"

text \<open>
  An \<^verbatim>\<open>ArrayTree[Tensor]\<close>: a tensor, or a mapping from names to array trees in the order
  of its entries.
\<close>

datatype arraytree = Leaf tensor | Tree "(string \<times> arraytree) list"

text \<open>The elements handed to \<^verbatim>\<open>torch.concatenate\<close> must all be tensors.\<close>

fun tensors_of :: "arraytree list \<Rightarrow> error + tensor list" where
  "tensors_of [] = Inr []"
| "tensors_of (Leaf t # xs) = (case tensors_of xs of Inl e \<Rightarrow> Inl e | Inr ts \<Rightarrow> Inr (t # ts))"
| "tensors_of (Tree _ # xs) = Inl TypeError"

definition concatenate :: "arraytree list \<Rightarrow> error + tensor" where
  "concatenate xs = (case tensors_of xs of Inl e \<Rightarrow> Inl e | Inr ts \<Rightarrow> cat ts)"

subsection \<open>Observation spaces\<close>

text \<open>
  A gymnasium space is a \<^verbatim>\<open>spaces.Dict\<close> (named sub-spaces in order), a
  \<^verbatim>\<open>PointCloudSpace\<close>, or a space of any other class. The class \<^verbatim>\<open>PointCloudSpace\<close>
  is declared in \<^verbatim>\<open>pprl.envs\<close>; only its \<^verbatim>\<open>shape\<close> attribute is read here, so the
  constructor carries that attribute. A space's \<^verbatim>\<open>shape\<close> is a tuple or \<^verbatim>\<open>None\<close>.
\<close>

datatype space =
    Dict "(string \<times> space) list"
  | PointCloudSpace "nat list option"
  | OtherSpace "nat list option"

fun space_shape :: "space \<Rightarrow> nat list option" where
  "space_shape (Dict _) = None"
| "space_shape (PointCloudSpace s) = s"
| "space_shape (OtherSpace s) = s"

fun is_PointCloudSpace :: "space \<Rightarrow> bool" where
  "is_PointCloudSpace (PointCloudSpace _) = True"
| "is_PointCloudSpace _ = False"

text \<open>\<^verbatim>\<open>space.shape[0]\<close>: subscripting \<^verbatim>\<open>None\<close> and indexing the empty tuple raise.\<close>

definition shape0 :: "space \<Rightarrow> error + int" where
  "shape0 s = (case space_shape s of
                 None \<Rightarrow> Inl TypeError
               | Some [] \<Rightarrow> Inl IndexError
               | Some (d # _) \<Rightarrow> Inr (int d))"

text \<open>\<^verbatim>\<open>mapping[key]\<close> on the entries of a dict.\<close>

definition getitem :: "(string \<times> 'a) list \<Rightarrow> string \<Rightarrow> error + 'a" where
  "getitem items k = (case map_of items k of None \<Rightarrow> Inl KeyError | Some v \<Rightarrow> Inr v)"

text \<open>The entries kept by \<^verbatim>\<open>for name, x in d.items() if name != "points"\<close>.\<close>

definition non_points :: "(string \<times> 'a) list \<Rightarrow> 'a list" where
  "non_points items = map snd (filter (\<lambda>(name, x). name \<noteq> ''points'') items)"

text \<open>
  \<^verbatim>\<open>sum(space.shape[0] for ... )\<close> over the kept sub-spaces, from the left; the first
  sub-space whose \<^verbatim>\<open>shape[0]\<close> raises ends the sum with that exception.
\<close>

fun sum_shape0 :: "space list \<Rightarrow> error + int" where
  "sum_shape0 [] = Inr 0"
| "sum_shape0 (s # ss) =
     (case shape0 s of
        Inl e \<Rightarrow> Inl e
      | Inr d \<Rightarrow> (case sum_shape0 ss of Inl e \<Rightarrow> Inl e | Inr n \<Rightarrow> Inr (d + n)))"

subsection \<open>Layers and sub-modules\<close>

record linear =
  in_features :: int
  out_features :: int
  param_dtype :: dtype
  weight :: "real list"
  bias :: "real list option"

text \<open>
  The tree of layers of an \<^verbatim>\<open>nn.Module\<close>: a linear layer, a layer normalisation (its
  weight and bias are \<^verbatim>\<open>None\<close> without the affine parameters), or a module of any other
  class with its own parameters and its children in registration order.
\<close>

datatype module =
    Linear linear
  | LayerNorm "real list option" "real list option"
  | Other "real list" "module list"

text \<open>
  A sub-module object as the encoder uses it: its layers and what calling it does, given
  the current layers. The sub-module classes live in sibling files, so both are taken as
  they come from the factories.
\<close>

record ('i, 'o, 'w) nn_object =
  layers :: module
  call :: "module \<Rightarrow> 'i \<Rightarrow> ('w, 'o) action"

record ('i, 'o, 'w) nn_object_with_dim = "('i, 'o, 'w) nn_object" +
  attr_embed_dim :: int

type_synonym 'w Tokenizer = "(tensor \<times> tensor \<times> tensor option, tensor \<times> tensor \<times> tensor, 'w) nn_object"
type_synonym 'w PosEmbedder = "(tensor, tensor, 'w) nn_object"
type_synonym 'w TransformerEncoder = "(tensor \<times> tensor, tensor, 'w) nn_object_with_dim"
type_synonym 'w SequencePooling = "(tensor, tensor, 'w) nn_object"

text \<open>\<^verbatim>\<open>obj(args)\<close>.\<close>

definition invoke :: "('i, 'o, 'w, 'z) nn_object_scheme \<Rightarrow> 'i \<Rightarrow> ('w, 'o) action" where
  "invoke obj x = call obj (layers obj) x"

text \<open>
  What the module imports: the pooling class, the point-cloud decomposition, and the
  random and numeric primitives of the tensor library with its default element type
  (\<^verbatim>\<open>torch.get_default_dtype()\<close>).
\<close>

record 'w env =
  SequencePooling_new :: "int \<Rightarrow> ('w, 'w SequencePooling) action"
  dict_to_batched_data :: "arraytree \<Rightarrow> ('w, tensor \<times> tensor \<times> tensor option) action"
  trunc_normal :: "real list \<Rightarrow> real \<Rightarrow> 'w \<Rightarrow> real list \<times> 'w"
  reset_parameters :: "nat \<Rightarrow> nat \<Rightarrow> 'w \<Rightarrow> (real list \<times> real list) \<times> 'w"
  F_linear :: "real list \<Rightarrow> real list option \<Rightarrow> real list \<Rightarrow> real list"
  default_dtype :: dtype

text \<open>
  \<^verbatim>\<open>nn.Linear(in_features, out_features)\<close>: a negative size raises; the weight and the
  bias have the default element type and get the library's default random initialisation.
\<close>

definition nn_Linear :: "'w env \<Rightarrow> int \<Rightarrow> int \<Rightarrow> ('w, linear) action" where
  "nn_Linear env i o_f =
     (\<lambda>w. if i < 0 \<or> o_f < 0 then (Inl RuntimeError, w)
          else (case reset_parameters env (nat i) (nat o_f) w of
                  ((wt, b), w') \<Rightarrow>
                    (Inr \<lparr>in_features = i, out_features = o_f, param_dtype = default_dtype env,
                          weight = wt, bias = Some b\<rparr>, w')))"

text \<open>
  Calling a linear layer on a tensor: the last axis must have \<open>in_features\<close> entries and
  becomes \<open>out_features\<close> wide, and the tensor must have the element type of the layer's
  parameters (the library raises on a mismatch); every row goes through the affine kernel.
\<close>

definition linear_forward :: "'w env \<Rightarrow> linear \<Rightarrow> tensor \<Rightarrow> error + tensor" where
  "linear_forward env l t =
     (if shape t = [] \<or> int (last (shape t)) \<noteq> in_features l \<or> dtype t \<noteq> param_dtype l
      then Inl RuntimeError
      else Inr \<lparr>shape = butlast (shape t) @ [nat (out_features l)],
                dtype = param_dtype l,
                data = concat (map (\<lambda>i. F_linear env (weight l) (bias l) (row t i))
                                   [0 ..< prod_list (butlast (shape t))])\<rparr>)"

subsection \<open>Weight initialisation\<close>

text \<open>\<^verbatim>\<open>nn.init.constant_(tensor, val)\<close> fills the tensor in place.\<close>

definition init_constant :: "real \<Rightarrow> real list \<Rightarrow> real list" where
  "init_constant v xs = map (\<lambda>_. v) xs"

text \<open>
  \<^verbatim>\<open>_init_weights(m)\<close>. For a layer normalisation without affine parameters the fill is
  called on \<^verbatim>\<open>None\<close> and raises.
\<close>

fun init_weights :: "'w env \<Rightarrow> module \<Rightarrow> ('w, module) action" where
  "init_weights env (Linear l) =
     (\<lambda>w. case trunc_normal env (weight l) 0.02 w of
            (wt, w') \<Rightarrow>
              (Inr (Linear (l\<lparr>weight := wt, bias := map_option (init_constant 0) (bias l)\<rparr>)), w'))"
| "init_weights env (LayerNorm wt b) =
     (case b of
        None \<Rightarrow> lift (Inl AttributeError)
      | Some b' \<Rightarrow>
          (case wt of
             None \<Rightarrow> lift (Inl AttributeError)
           | Some wt' \<Rightarrow> return (LayerNorm (Some (init_constant 1.0 wt')) (Some (init_constant 0 b')))))"
| "init_weights env (Other p cs) = return (Other p cs)"

text \<open>
  \<^verbatim>\<open>module.apply(fn)\<close>: the children first, in registration order, then the module itself.
\<close>

fun module_apply :: "(module \<Rightarrow> ('w, module) action) \<Rightarrow> module \<Rightarrow> ('w, module) action"
  and children_apply :: "(module \<Rightarrow> ('w, module) action) \<Rightarrow> module list \<Rightarrow> ('w, module list) action"
  where
  "module_apply fn (Linear l) = fn (Linear l)"
| "module_apply fn (LayerNorm wt b) = fn (LayerNorm wt b)"
| "module_apply fn (Other p cs) = bindM (children_apply fn cs) (\<lambda>cs'. fn (Other p cs'))"
| "children_apply fn [] = return []"
| "children_apply fn (c # cs) =
     bindM (module_apply fn c) (\<lambda>c'. bindM (children_apply fn cs) (\<lambda>cs'. return (c' # cs')))"

text \<open>The same pass on a sub-module object: its layers are initialised, the rest is kept.\<close>

definition object_apply ::
  "(module \<Rightarrow> ('w, module) action) \<Rightarrow> ('i, 'o, 'w, 'z) nn_object_scheme
     \<Rightarrow> ('w, ('i, 'o, 'w, 'z) nn_object_scheme) action" where
  "object_apply fn obj = bindM (module_apply fn (layers obj)) (\<lambda>m. return (obj\<lparr>layers := m\<rparr>))"

subsection \<open>The encoder\<close>

record 'w PointPatchTransformer =
  obs_is_dict :: bool
  tokenizer :: "'w Tokenizer"
  pos_embedder :: "'w PosEmbedder"
  transformer_encoder :: "'w TransformerEncoder"
  pooling :: "'w SequencePooling"
  state_encoder :: "linear option"
  state_dim :: int

text \<open>
  Lines 29 to 32: the point-cloud sub-space is the \<^verbatim>\<open>"points"\<close> entry of a dict space and
  the space itself otherwise.
\<close>

fun point_space_of :: "space \<Rightarrow> error + space" where
  "point_space_of (Dict items) = getitem items ''points''"
| "point_space_of obs_space = Inr obs_space"

fun is_Dict :: "space \<Rightarrow> bool" where
  "is_Dict (Dict _) = True"
| "is_Dict _ = False"

text \<open>\<^verbatim>\<open>obs_space.items()\<close>, read only when the space is a dict.\<close>

fun space_items :: "space \<Rightarrow> (string \<times> space) list" where
  "space_items (Dict items) = items"
| "space_items _ = []"

text \<open>
  \<^verbatim>\<open>__init__\<close>. The three factory arguments and the pooling class build the sub-modules;
  \<^verbatim>\<open>self.apply(self._init_weights)\<close> then visits the four registered children in order
  (the encoder itself is neither a linear layer nor a layer normalisation, so the visit of
  the root changes nothing); the state projection is created afterwards.
\<close>

definition init ::
  "'w env \<Rightarrow> space
    \<Rightarrow> (int \<Rightarrow> int \<Rightarrow> ('w, 'w Tokenizer) action)
    \<Rightarrow> (int \<Rightarrow> ('w, 'w PosEmbedder) action)
    \<Rightarrow> (int \<Rightarrow> ('w, 'w TransformerEncoder) action)
    \<Rightarrow> int \<Rightarrow> int option \<Rightarrow> ('w, 'w PointPatchTransformer) action" where
  "init env obs_space tokenizer_arg pos_embedder_arg transformer_encoder_arg embed_dim_arg
        state_embed_dim =
     bindM (lift (point_space_of obs_space)) (\<lambda>point_space.
     bindM (lift (if is_PointCloudSpace point_space then Inr () else Inl AssertionError)) (\<lambda>_.
     bindM (lift (shape0 point_space)) (\<lambda>point_dim.
     bindM (tokenizer_arg point_dim embed_dim_arg) (\<lambda>tok.
     bindM (pos_embedder_arg embed_dim_arg) (\<lambda>pe.
     bindM (transformer_encoder_arg embed_dim_arg) (\<lambda>te.
     bindM (SequencePooling_new env embed_dim_arg) (\<lambda>pool.
     bindM (object_apply (init_weights env) tok) (\<lambda>tok'.
     bindM (object_apply (init_weights env) pe) (\<lambda>pe'.
     bindM (object_apply (init_weights env) te) (\<lambda>te'.
     bindM (object_apply (init_weights env) pool) (\<lambda>pool'.
       if is_Dict obs_space then
         bindM (lift (sum_shape0 (non_points (space_items obs_space)))) (\<lambda>sd.
           case state_embed_dim of
             Some d \<Rightarrow>
               bindM (nn_Linear env sd d) (\<lambda>l.
                 return \<lparr>obs_is_dict = True, tokenizer = tok', pos_embedder = pe',
                         transformer_encoder = te', pooling = pool',
                         state_encoder = Some l, state_dim = d\<rparr>)
           | None \<Rightarrow>
               return \<lparr>obs_is_dict = True, tokenizer = tok', pos_embedder = pe',
                       transformer_encoder = te', pooling = pool',
                       state_encoder = None, state_dim = sd\<rparr>)
       else
         return \<lparr>obs_is_dict = False, tokenizer = tok', pos_embedder = pe',
                 transformer_encoder = te', pooling = pool',
                 state_encoder = None, state_dim = 0\<rparr>)))))))))))"

text \<open>
  \<^verbatim>\<open>observation["points"] if self.obs_is_dict else observation\<close>. Subscripting a tensor
  with a string raises \<^verbatim>\<open>IndexError\<close>.
\<close>

definition point_cloud_of :: "bool \<Rightarrow> arraytree \<Rightarrow> error + arraytree" where
  "point_cloud_of is_dict observation =
     (if is_dict then
        (case observation of
           Tree items \<Rightarrow> getitem items ''points''
         | Leaf _ \<Rightarrow> Inl IndexError)
      else Inr observation)"

text \<open>\<^verbatim>\<open>observation.items()\<close>, reached only after the subscript above succeeded.\<close>

fun tree_items :: "arraytree \<Rightarrow> (string \<times> arraytree) list" where
  "tree_items (Tree items) = items"
| "tree_items (Leaf _) = []"

text \<open>\<^verbatim>\<open>forward\<close>.\<close>

definition forward :: "'w env \<Rightarrow> 'w PointPatchTransformer \<Rightarrow> arraytree \<Rightarrow> ('w, tensor) action" where
  "forward env self observation =
     bindM (lift (point_cloud_of (obs_is_dict self) observation)) (\<lambda>point_cloud.
     bindM (dict_to_batched_data env point_cloud) (\<lambda>(pos, batch, color).
     bindM (invoke (tokenizer self) (pos, batch, color)) (\<lambda>(x, _, center_points).
     bindM (invoke (pos_embedder self) center_points) (\<lambda>pos'.
     bindM (invoke (transformer_encoder self) (x, pos')) (\<lambda>x'.
     bindM (invoke (pooling self) x') (\<lambda>encoder_out.
       if obs_is_dict self then
         bindM (case state_encoder self of
                  Some l \<Rightarrow>
                    bindM (lift (concatenate (non_points (tree_items observation)))) (\<lambda>s.
                    bindM (lift (linear_forward env l s)) (\<lambda>s'.
                      return [Leaf s']))
                | None \<Rightarrow> return (non_points (tree_items observation))) (\<lambda>state.
           lift (concatenate ([Leaf encoder_out] @ state)))
       else return encoder_out))))))"

text \<open>The property \<^verbatim>\<open>embed_dim\<close>.\<close>

definition embed_dim :: "'w PointPatchTransformer \<Rightarrow> int" where
  "embed_dim self = attr_embed_dim (transformer_encoder self) + state_dim self"

subsection \<open>Properties the theorems speak about\<close>

text \<open>
  A layer tree is initialised when every linear layer in it has an all-zero bias (if it
  has a bias) and every layer normalisation has an all-zero bias and an all-one weight.
\<close>

fun initialised :: "module \<Rightarrow> bool" where
  "initialised (Linear l) = (case bias l of None \<Rightarrow> True | Some b \<Rightarrow> list_all (\<lambda>v. v = 0) b)"
| "initialised (LayerNorm wt b) =
     (case (wt, b) of
        (Some wt', Some b') \<Rightarrow> list_all (\<lambda>v. v = 1) wt' \<and> list_all (\<lambda>v. v = 0) b'
      | _ \<Rightarrow> False)"
| "initialised (Other p cs) = list_all initialised cs"

text \<open>Every layer normalisation of the tree has its affine parameters.\<close>

fun affine :: "module \<Rightarrow> bool" where
  "affine (Linear l) = True"
| "affine (LayerNorm wt b) = (wt \<noteq> None \<and> b \<noteq> None)"
| "affine (Other p cs) = list_all affine cs"

text \<open>
  The factories honour their interface: whatever the world state, each returns an object,
  and the layer normalisations of that object have affine parameters.
\<close>

definition returns_object :: "('w, ('i, 'o, 'w, 'z) nn_object_scheme) action \<Rightarrow> bool" where
  "returns_object m = (\<forall>w. \<exists>obj w'. m w = (Inr obj, w') \<and> affine (layers obj))"

definition factories_ok ::
  "'w env \<Rightarrow> (int \<Rightarrow> int \<Rightarrow> ('w, 'w Tokenizer) action) \<Rightarrow> (int \<Rightarrow> ('w, 'w PosEmbedder) action)
    \<Rightarrow> (int \<Rightarrow> ('w, 'w TransformerEncoder) action) \<Rightarrow> int \<Rightarrow> bool" where
  "factories_ok env tokenizer_arg pos_embedder_arg transformer_encoder_arg e =
     ((\<forall>point_dim. returns_object (tokenizer_arg point_dim e))
      \<and> returns_object (pos_embedder_arg e)
      \<and> returns_object (transformer_encoder_arg e)
      \<and> returns_object (SequencePooling_new env e))"

text \<open>
  The collaborator contracts at embedding width \<open>e\<close>, point dimension \<open>pd\<close> and batch size
  \<open>b\<close>, for the point cloud of one observation: the decomposition returns; the tokenizer
  returns tokens \<open>[n, e]\<close> and centers \<open>[n, pd]\<close>; the positional embedder maps centers
  \<open>[n, pd]\<close> to \<open>[n, e]\<close>; the transformer encoder returns the shape of its tokens and
  exposes \<open>e\<close> as its width; the pooling returns \<open>[b, e]\<close>.
\<close>

definition collaborator_contracts ::
  "'w env \<Rightarrow> 'w PointPatchTransformer \<Rightarrow> arraytree \<Rightarrow> nat \<Rightarrow> nat \<Rightarrow> nat \<Rightarrow> bool" where
  "collaborator_contracts env self observation pd e b =
     ((\<forall>pc w. point_cloud_of (obs_is_dict self) observation = Inr pc \<longrightarrow>
         (\<exists>r w'. dict_to_batched_data env pc w = (Inr r, w')))
      \<and> (\<forall>inp w. \<exists>x a c w' n. invoke (tokenizer self) inp w = (Inr (x, a, c), w')
               \<and> shape x = [n, e] \<and> shape c = [n, pd])
      \<and> (\<forall>c w n. shape c = [n, pd] \<longrightarrow>
            (\<exists>p w'. invoke (pos_embedder self) c w = (Inr p, w') \<and> shape p = [n, e]))
      \<and> (\<forall>x p w n. shape x = [n, e] \<and> shape p = [n, e] \<longrightarrow>
            (\<exists>y w'. invoke (transformer_encoder self) (x, p) w = (Inr y, w') \<and> shape y = shape x))
      \<and> (\<forall>y w n. shape y = [n, e] \<longrightarrow>
            (\<exists>z w'. invoke (pooling self) y w = (Inr z, w') \<and> shape z = [b, e]))
      \<and> attr_embed_dim (transformer_encoder self) = int e)"

text \<open>
  An observation conforms to a space at batch size \<open>b\<close>: for a dict space it is a mapping
  with the space's keys in the space's order, and every entry other than \<^verbatim>\<open>"points"\<close> is a
  tensor whose shape is \<open>b\<close> followed by the shape of its sub-space. The point cloud itself
  is judged by the decomposition utility.
\<close>

definition field_conforms :: "nat \<Rightarrow> space \<Rightarrow> arraytree \<Rightarrow> bool" where
  "field_conforms b s v =
     (case v of
        Leaf t \<Rightarrow> (case space_shape s of Some sh \<Rightarrow> shape t = b # sh | None \<Rightarrow> False)
      | Tree _ \<Rightarrow> False)"

definition conforms :: "nat \<Rightarrow> space \<Rightarrow> arraytree \<Rightarrow> bool" where
  "conforms b obs_space observation =
     (if is_Dict obs_space then
        (case observation of
           Tree items \<Rightarrow>
             map fst items = map fst (space_items obs_space)
             \<and> list_all2 (field_conforms b) (non_points (space_items obs_space)) (non_points items)
         | Leaf _ \<Rightarrow> False)
      else True)"

text \<open>The auxiliary fields of an observation are batches of vectors of the widths \<open>ks\<close>.\<close>

definition aux_widths :: "nat \<Rightarrow> arraytree \<Rightarrow> nat list \<Rightarrow> bool" where
  "aux_widths b observation ks =
     list_all2 (\<lambda>v k. case v of Leaf t \<Rightarrow> shape t = [b, k] | Tree _ \<Rightarrow> False)
       (non_points (tree_items observation)) ks"


text \<open>
  \<open>pooled\<close> is the point embedding of the point cloud \<open>pc\<close>: what the pooling returns on
  what the transformer encoder returns on the tokens and the positional embeddings of the
  patch centers, for the decomposition of \<open>pc\<close>, the calls made in this order from the
  world \<open>w\<close> and leaving the world \<open>w'\<close>.
\<close>

definition pooled_from ::
  "'w env \<Rightarrow> 'w PointPatchTransformer \<Rightarrow> arraytree \<Rightarrow> 'w \<Rightarrow> tensor \<Rightarrow> 'w \<Rightarrow> bool" where
  "pooled_from env self pc w pooled w' =
     (\<exists>pos batch color x a c p y wa wb wc wd.
        dict_to_batched_data env pc w = (Inr (pos, batch, color), wa)
      \<and> invoke (tokenizer self) (pos, batch, color) wa = (Inr (x, a, c), wb)
      \<and> invoke (pos_embedder self) c wb = (Inr p, wc)
      \<and> invoke (transformer_encoder self) (x, p) wc = (Inr y, wd)
      \<and> invoke (pooling self) y wd = (Inr pooled, w'))"

text \<open>The result of an action does not depend on the world state it starts from.\<close>

definition deterministic :: "('w, 'a) action \<Rightarrow> bool" where
  "deterministic m = (\<forall>w1 w2. fst (m w1) = fst (m w2))"

text \<open>A space whose \<^verbatim>\<open>shape\<close> is a tuple with at least one entry.\<close>

definition has_axis :: "space \<Rightarrow> bool" where
  "has_axis s = (case space_shape s of Some (d # rest) \<Rightarrow> True | _ \<Rightarrow> False)"

subsection \<open>A concrete instance\<close>

text \<open>
  An instance with embedding width, batch size and field widths as parameters or small
  numbers: sub-modules that return all-zero tensors of the contracted shapes and count
  their calls in the world state (a natural number), a default initialiser that draws
  \<open>1/4\<close> for weights and \<open>1/8\<close> for biases, and the affine map as the linear kernel.
\<close>

definition zeros :: "nat list \<Rightarrow> tensor" where
  "zeros sh = \<lparr>shape = sh, dtype = Float32, data = replicate (prod_list sh) 0\<rparr>"

definition demo_layers :: module where
  "demo_layers =
     Other [7] [Linear \<lparr>in_features = 2, out_features = 1, param_dtype = Float32, weight = [1, 1], bias = Some [1]\<rparr>,
                LayerNorm (Some [2]) (Some [3]),
                Other [] [Linear \<lparr>in_features = 1, out_features = 1, param_dtype = Float32, weight = [5], bias = None\<rparr>]]"

definition demo_tokenizer_obj :: "int \<Rightarrow> int \<Rightarrow> nat Tokenizer" where
  "demo_tokenizer_obj point_dim e =
     \<lparr>layers = demo_layers,
      call = (\<lambda>m inp w. (Inr (zeros [8, nat e], zeros [8], zeros [8, nat point_dim]), Suc w))\<rparr>"

definition demo_tokenizer :: "int \<Rightarrow> int \<Rightarrow> (nat, nat Tokenizer) action" where
  "demo_tokenizer point_dim e = (\<lambda>w. (Inr (demo_tokenizer_obj point_dim e), Suc w))"

definition demo_pos_embedder_obj :: "int \<Rightarrow> nat PosEmbedder" where
  "demo_pos_embedder_obj e =
     \<lparr>layers = demo_layers,
      call = (\<lambda>m c w. (Inr (zeros [hd (shape c), nat e]), Suc w))\<rparr>"

definition demo_pos_embedder :: "int \<Rightarrow> (nat, nat PosEmbedder) action" where
  "demo_pos_embedder e = (\<lambda>w. (Inr (demo_pos_embedder_obj e), Suc w))"

definition demo_transformer_encoder_obj :: "int \<Rightarrow> nat TransformerEncoder" where
  "demo_transformer_encoder_obj e =
     \<lparr>layers = demo_layers,
      call = (\<lambda>m xp w. (Inr (fst xp), Suc w)),
      attr_embed_dim = e\<rparr>"

definition demo_transformer_encoder :: "int \<Rightarrow> (nat, nat TransformerEncoder) action" where
  "demo_transformer_encoder e = (\<lambda>w. (Inr (demo_transformer_encoder_obj e), Suc w))"

definition demo_pooling_obj :: "nat \<Rightarrow> int \<Rightarrow> nat SequencePooling" where
  "demo_pooling_obj b e =
     \<lparr>layers = demo_layers,
      call = (\<lambda>m y w. (Inr (zeros [b, nat e]), Suc w))\<rparr>"

definition demo_kernel :: "real list \<Rightarrow> real list option \<Rightarrow> real list \<Rightarrow> real list" where
  "demo_kernel wt b x =
     map (\<lambda>j. sum_list (map2 (*) (take (length x) (drop (j * length x) wt)) x)
               + (case b of None \<Rightarrow> 0 | Some bs \<Rightarrow> bs ! j))
         [0 ..< length wt div length x]"

definition demo_env :: "nat \<Rightarrow> nat env" where
  "demo_env b =
     \<lparr>SequencePooling_new = (\<lambda>e w. (Inr (demo_pooling_obj b e), Suc w)),
      dict_to_batched_data = (\<lambda>pc w. (Inr (zeros [256, 3], zeros [256], None), Suc w)),
      trunc_normal = (\<lambda>xs std w. (map (\<lambda>_. std) xs, Suc w)),
      reset_parameters = (\<lambda>i o_f w. ((replicate (o_f * i) (1/4), replicate o_f (1/8)), Suc w)),
      F_linear = demo_kernel,
      default_dtype = Float32\<rparr>"

text \<open>The layers of the instance after the initialisation pass, and the encoder built from it.\<close>

definition demo_initialised_layers :: module where
  "demo_initialised_layers =
     Other [7] [Linear \<lparr>in_features = 2, out_features = 1, param_dtype = Float32, weight = [0.02, 0.02], bias = Some [0]\<rparr>,
                LayerNorm (Some [1]) (Some [0]),
                Other [] [Linear \<lparr>in_features = 1, out_features = 1, param_dtype = Float32, weight = [0.02], bias = None\<rparr>]]"

definition demo_encoder :: "nat \<Rightarrow> int \<Rightarrow> bool \<Rightarrow> linear option \<Rightarrow> int \<Rightarrow> nat PointPatchTransformer" where
  "demo_encoder b e is_dict se sd =
     \<lparr>obs_is_dict = is_dict,
      tokenizer = (demo_tokenizer_obj 3 e)\<lparr>layers := demo_initialised_layers\<rparr>,
      pos_embedder = (demo_pos_embedder_obj e)\<lparr>layers := demo_initialised_layers\<rparr>,
      transformer_encoder = (demo_transformer_encoder_obj e)\<lparr>layers := demo_initialised_layers\<rparr>,
      pooling = (demo_pooling_obj b e)\<lparr>layers := demo_initialised_layers\<rparr>,
      state_encoder = se,
      state_dim = sd\<rparr>"

definition demo_projection :: "int \<Rightarrow> int \<Rightarrow> linear" where
  "demo_projection s d =
     \<lparr>in_features = s, out_features = d, param_dtype = Float32,
      weight = replicate (nat d * nat s) (1/4), bias = Some (replicate (nat d) (1/8))\<rparr>"

definition demo_cloud :: arraytree where
  "demo_cloud = Tree [(''pos'', Leaf (zeros [256, 3])),
                      (''ptr'', Leaf \<lparr>shape = [5], dtype = Int64, data = [0, 64, 128, 192, 256]\<rparr>)]"

definition demo_items :: "(string \<times> space) list" where
  "demo_items = [(''points'', PointCloudSpace (Some [3])),
                 (''joint'', OtherSpace (Some [3])),
                 (''gripper'', OtherSpace (Some [5]))]"

definition demo_dict_space :: space where
  "demo_dict_space = Dict demo_items"

text \<open>A dict space with an auxiliary sub-space of two axes, and one with a scalar sub-space.\<close>

definition demo_image_items :: "(string \<times> space) list" where
  "demo_image_items = [(''points'', PointCloudSpace (Some [3])),
                       (''image'', OtherSpace (Some [2, 3]))]"

definition demo_scalar_space :: space where
  "demo_scalar_space = Dict [(''points'', PointCloudSpace (Some [3])),
                             (''gripper'', OtherSpace (Some []))]"

definition demo_dict_obs :: arraytree where
  "demo_dict_obs = Tree [(''points'', demo_cloud),
                         (''joint'', Leaf (zeros [4, 3])),
                         (''gripper'', Leaf (zeros [4, 5]))]"

definition demo_image_obs :: arraytree where
  "demo_image_obs = Tree [(''points'', demo_cloud),
                          (''image'', Leaf (zeros [4, 2, 3]))]"

section \<open>Auxiliary facts\<close>

subsection \<open>Sequencing\<close>

lemma bindM_apply: "bindM m f w = (case m w of (Inl e, w') \<Rightarrow> (Inl e, w') | (Inr x, w') \<Rightarrow> f x w')"
  by (simp add: bindM_def)

lemma bindM_Inr: "m w = (Inr x, w') \<Longrightarrow> bindM m f w = f x w'"
  by (simp add: bindM_def)

lemma bindM_eq_Inr:
  "bindM m f w = (Inr y, w'') \<longleftrightarrow> (\<exists>x w'. m w = (Inr x, w') \<and> f x w' = (Inr y, w''))"
  by (auto simp: bindM_def split: prod.splits sum.splits)

lemma lift_apply: "lift r w = (r, w)"
  by (simp add: lift_def)

lemma return_apply: "return x w = (Inr x, w)"
  by (simp add: return_def)

lemma init_pass_initialised:
  "module_apply (init_weights env) m w = (Inr m', w') \<Longrightarrow> initialised m'"
  "children_apply (init_weights env) cs w = (Inr cs', w') \<Longrightarrow> list_all initialised cs'"
proof (induction "init_weights env" m and "init_weights env" cs arbitrary: w m' w' and w cs' w'
        rule: module_apply_children_apply.induct)
  case (1 l)
  then show ?case
    by (auto simp: init_constant_def list_all_iff split: prod.splits option.splits)
next
  case (2 wt b)
  then show ?case
    by (auto simp: init_constant_def list_all_iff lift_apply return_apply split: option.splits)
next
  case (3 p cs)
  then show ?case
    by (auto simp: bindM_eq_Inr return_apply)
next
  case 4
  then show ?case by (simp add: return_apply)
next
  case (5 c cs)
  then show ?case
    by (auto simp: bindM_eq_Inr return_apply)
qed

lemma init_pass_returns:
  "affine m \<Longrightarrow> \<exists>m' w'. module_apply (init_weights env) m w = (Inr m', w')"
  "list_all affine cs \<Longrightarrow> \<exists>cs' w'. children_apply (init_weights env) cs w = (Inr cs', w')"
proof (induction "init_weights env" m and "init_weights env" cs arbitrary: w and w
        rule: module_apply_children_apply.induct)
  case (1 l)
  then show ?case by (auto split: prod.splits)
next
  case (2 wt b)
  then show ?case by (auto simp: return_apply)
next
  case (3 p cs)
  then obtain cs' w' where "children_apply (init_weights env) cs w = (Inr cs', w')"
    by fastforce
  then show ?case by (simp add: bindM_Inr return_apply)
next
  case 4
  then show ?case by (simp add: return_apply)
next
  case (5 c cs)
  then obtain c' w1 where c: "module_apply (init_weights env) c w = (Inr c', w1)"
    by fastforce
  from 5 obtain cs' w2 where "children_apply (init_weights env) cs w1 = (Inr cs', w2)"
    by fastforce
  with c show ?case by (simp add: bindM_Inr return_apply)
qed

lemma object_apply_Inr:
  "object_apply (init_weights env) obj w = (Inr obj', w') \<longleftrightarrow>
     (\<exists>m. module_apply (init_weights env) (layers obj) w = (Inr m, w') \<and> obj' = obj\<lparr>layers := m\<rparr>)"
  by (auto simp: object_apply_def bindM_eq_Inr return_apply)

lemma init_Inr:
  assumes "init env sp tokF peF teF e sed w0 = (Inr self, w1)"
  shows "\<exists>ps pd tok pe te pool mt mp me ml wa wb wc wd we wf wg wh.
           point_space_of sp = Inr ps \<and> is_PointCloudSpace ps \<and> shape0 ps = Inr pd
         \<and> tokF pd e w0 = (Inr tok, wa) \<and> peF e wa = (Inr pe, wb) \<and> teF e wb = (Inr te, wc)
         \<and> SequencePooling_new env e wc = (Inr pool, wd)
         \<and> module_apply (init_weights env) (layers tok) wd = (Inr mt, we)
         \<and> module_apply (init_weights env) (layers pe) we = (Inr mp, wf)
         \<and> module_apply (init_weights env) (layers te) wf = (Inr me, wg)
         \<and> module_apply (init_weights env) (layers pool) wg = (Inr ml, wh)
         \<and> tokenizer self = tok\<lparr>layers := mt\<rparr> \<and> pos_embedder self = pe\<lparr>layers := mp\<rparr>
         \<and> transformer_encoder self = te\<lparr>layers := me\<rparr> \<and> pooling self = pool\<lparr>layers := ml\<rparr>
         \<and> obs_is_dict self = is_Dict sp
         \<and> (if is_Dict sp then
              (\<exists>sd. sum_shape0 (non_points (space_items sp)) = Inr sd \<and>
                 (case sed of
                    None \<Rightarrow> state_encoder self = None \<and> state_dim self = sd \<and> w1 = wh
                  | Some d \<Rightarrow> (\<exists>l. nn_Linear env sd d wh = (Inr l, w1) \<and> state_encoder self = Some l
                                  \<and> state_dim self = d)))
            else state_encoder self = None \<and> state_dim self = 0 \<and> w1 = wh)"
  using assms
  unfolding init_def bindM_eq_Inr object_apply_Inr lift_apply return_apply
  by (auto split: if_splits option.splits simp: bindM_eq_Inr return_apply)

subsection \<open>Concatenation\<close>

lemma sum_shape0_nonneg: "sum_shape0 ss = Inr n \<Longrightarrow> 0 \<le> n"
  by (induction ss arbitrary: n) (auto simp: shape0_def split: sum.splits option.splits list.splits)

lemma cat_rows:
  assumes "ts \<noteq> []" and "list_all2 (\<lambda>t k. shape t = [b, k]) ts ks"
  shows "\<exists>out. cat ts = Inr out \<and> shape out = [b, sum_list ks]"
proof -
  from assms obtain t rest where ts: "ts = t # rest" by (cases ts) auto
  from assms(2) have sh: "\<forall>u \<in> set ts. \<exists>k. shape u = [b, k]"
    by (auto simp: list_all2_conv_all_nth in_set_conv_nth)
  then have keep: "filter (\<lambda>t. shape t \<noteq> [0]) ts = ts"
    by (auto simp: filter_id_conv)
  from sh have nonempty: "\<not> list_ex (\<lambda>t. shape t = []) ts"
    by (auto simp: list_ex_iff)
  from sh have agree: "list_all (\<lambda>u. butlast (shape u) = butlast (shape t)) rest"
    unfolding ts by (fastforce simp: list_all_iff)
  from assms(2) have lasts: "map (\<lambda>u. last (shape u)) ts = ks"
    by (induction ts ks rule: list_all2_induct) auto
  show ?thesis
    using keep nonempty agree lasts sh unfolding cat_def ts by auto
qed

lemma tensors_of_leaves:
  "list_all2 (\<lambda>v k. case v of Leaf t \<Rightarrow> shape t = [b, k] | Tree _ \<Rightarrow> False) vs ks
   \<Longrightarrow> \<exists>ts. tensors_of vs = Inr ts \<and> list_all2 (\<lambda>t k. shape t = [b, k]) ts ks"
  by (induction vs ks rule: list_all2_induct) (auto split: arraytree.splits)

lemma concatenate_rows:
  assumes "vs \<noteq> []"
    and "list_all2 (\<lambda>v k. case v of Leaf t \<Rightarrow> shape t = [b, k] | Tree _ \<Rightarrow> False) vs ks"
  shows "\<exists>out. concatenate vs = Inr out \<and> shape out = [b, sum_list ks]"
proof -
  from tensors_of_leaves[OF assms(2)] obtain ts
    where ts: "tensors_of vs = Inr ts" "list_all2 (\<lambda>t k. shape t = [b, k]) ts ks" by blast
  from assms ts(2) have "ts \<noteq> []" by (auto simp: list_all2_conv_all_nth)
  from cat_rows[OF this ts(2)] ts(1) show ?thesis by (simp add: concatenate_def)
qed

lemma tensors_of_Inr:
  "tensors_of vs = Inr ts \<Longrightarrow> vs = map Leaf ts"
  by (induction vs arbitrary: ts rule: tensors_of.induct) (auto split: sum.splits)

lemma cat_returned_shape:
  assumes "cat (t # rest) = Inr out" and "shape t = [b, e]"
    and "list_all2 (\<lambda>u sh. shape u = b # sh \<and> sh \<noteq> []) rest shs"
  shows "shape out = [b, e + sum_list (map hd shs)] \<and> list_all (\<lambda>sh. length sh = 1) shs"
proof -
  from assms(3) have len: "\<forall>u \<in> set rest. 2 \<le> length (shape u)"
    by (auto simp: list_all2_conv_all_nth in_set_conv_nth Suc_le_eq)
  then have keep: "filter (\<lambda>t. shape t \<noteq> [0]) (t # rest) = t # rest"
    using assms(2) by (auto simp: filter_id_conv)
  have nonempty: "\<not> list_ex (\<lambda>t. shape t = []) (t # rest)"
    using len assms(2) by (auto simp: list_ex_iff)
  from assms(1) keep nonempty
  have agree: "list_all (\<lambda>u. butlast (shape u) = butlast (shape t)) rest"
    and out: "shape out = butlast (shape t) @ [sum_list (map (\<lambda>u. last (shape u)) (t # rest))]"
    unfolding cat_def by (auto split: if_splits)
  from assms(3) agree
  have "map (\<lambda>u. last (shape u)) rest = map hd shs \<and> list_all (\<lambda>sh. length sh = 1) shs"
  proof (induction rest shs rule: list_all2_induct)
    case Nil
    then show ?case by simp
  next
    case (Cons u us sh shs)
    from Cons.prems Cons.hyps(1) assms(2) have "butlast sh = []"
      by (cases sh) auto
    with Cons.hyps(1) obtain k where "sh = [k]"
      by (cases sh) (auto split: if_splits)
    with Cons show ?case by auto
  qed
  with out assms(2) show ?thesis by simp
qed

lemma cat_pair_last:
  assumes "cat [t, u] = Inr out" and "shape t = [b, e]" and "shape u = pre @ [k]"
  shows "shape out = [b, e + k]"
  using assms unfolding cat_def
  by (auto split: if_splits simp: butlast_append)

lemma conforms_points:
  assumes "conforms b (Dict items) obs" and "map_of items ''points'' = Some ps"
  shows "\<exists>pc. point_cloud_of True obs = Inr pc"
proof -
  from assms(1) obtain oitems where o: "obs = Tree oitems" "map fst oitems = map fst items"
    by (auto simp: conforms_def split: arraytree.splits)
  from assms(2) have "''points'' \<in> fst ` set items"
    by (metis domI dom_map_of_conv_image_fst)
  with o(2) have "''points'' \<in> fst ` set oitems"
    by (metis set_map)
  then obtain pc where "map_of oitems ''points'' = Some pc"
    by (metis domD dom_map_of_conv_image_fst)
  with o(1) show ?thesis by (simp add: point_cloud_of_def getitem_def)
qed

subsection \<open>Construction and the forward pipeline\<close>

lemma forward_pipeline:
  assumes "collaborator_contracts env self obs pd e b"
    and "point_cloud_of (obs_is_dict self) obs = Inr pc"
  shows "\<exists>pos batch color x a c p y pooled w1 w2 w3 w4 w5.
           dict_to_batched_data env pc w = (Inr (pos, batch, color), w1)
         \<and> invoke (tokenizer self) (pos, batch, color) w1 = (Inr (x, a, c), w2)
         \<and> invoke (pos_embedder self) c w2 = (Inr p, w3)
         \<and> invoke (transformer_encoder self) (x, p) w3 = (Inr y, w4)
         \<and> invoke (pooling self) y w4 = (Inr pooled, w5)
         \<and> shape pooled = [b, e]
         \<and> forward env self obs w =
             (if obs_is_dict self then
                bindM (case state_encoder self of
                         Some l \<Rightarrow>
                           bindM (lift (concatenate (non_points (tree_items obs)))) (\<lambda>s.
                           bindM (lift (linear_forward env l s)) (\<lambda>s'. return [Leaf s']))
                       | None \<Rightarrow> return (non_points (tree_items obs)))
                  (\<lambda>state. lift (concatenate ([Leaf pooled] @ state))) w5
              else (Inr pooled, w5))"
proof -
  from assms obtain r w1 where "dict_to_batched_data env pc w = (Inr r, w1)"
    unfolding collaborator_contracts_def by blast
  then obtain pos batch color
    where d: "dict_to_batched_data env pc w = (Inr (pos, batch, color), w1)"
    by (cases r) auto
  from assms(1) obtain x a c w2 n
    where t: "invoke (tokenizer self) (pos, batch, color) w1 = (Inr (x, a, c), w2)"
      and x: "shape x = [n, e]" and c: "shape c = [n, pd]"
    unfolding collaborator_contracts_def by blast
  from assms(1) c obtain p w3
    where pe: "invoke (pos_embedder self) c w2 = (Inr p, w3)" and p: "shape p = [n, e]"
    unfolding collaborator_contracts_def by blast
  from assms(1) x p obtain y w4
    where te: "invoke (transformer_encoder self) (x, p) w3 = (Inr y, w4)"
      and y: "shape y = shape x"
    unfolding collaborator_contracts_def by blast
  from assms(1) x y obtain z w5
    where po: "invoke (pooling self) y w4 = (Inr z, w5)" and z: "shape z = [b, e]"
    unfolding collaborator_contracts_def by metis
  have "forward env self obs w =
          (if obs_is_dict self then
                bindM (case state_encoder self of
                         Some l \<Rightarrow>
                           bindM (lift (concatenate (non_points (tree_items obs)))) (\<lambda>s.
                           bindM (lift (linear_forward env l s)) (\<lambda>s'. return [Leaf s']))
                       | None \<Rightarrow> return (non_points (tree_items obs)))
                  (\<lambda>state. lift (concatenate ([Leaf z] @ state))) w5
              else (Inr z, w5))"
    unfolding forward_def
    by (simp add: bindM_apply lift_apply return_apply assms(2) d t pe te po)
  with d t pe te po z show ?thesis by blast
qed

lemma returns_objectD:
  "returns_object m \<Longrightarrow> \<exists>obj w'. m w = (Inr obj, w') \<and> affine (layers obj)"
  by (simp add: returns_object_def)

lemma sum_shape0_Inl: "sum_shape0 ss = Inl e \<Longrightarrow> e = TypeError \<or> e = IndexError"
  by (induction ss) (auto simp: shape0_def split: sum.splits option.splits list.splits)

lemma shape0_Inl: "shape0 s = Inl e \<Longrightarrow> e = TypeError \<or> e = IndexError"
  by (auto simp: shape0_def split: option.splits list.splits)

lemma has_axis_shape0: "has_axis s \<Longrightarrow> \<exists>d. shape0 s = Inr d"
  by (auto simp: has_axis_def shape0_def split: option.splits list.splits)

lemma has_axis_sum_shape0: "list_all has_axis ss \<Longrightarrow> \<exists>n. sum_shape0 ss = Inr n"
proof (induction ss)
  case Nil
  then show ?case by simp
next
  case (Cons s ss)
  then obtain d n where "shape0 s = Inr d" "sum_shape0 ss = Inr n"
    using has_axis_shape0 by fastforce
  then show ?case by simp
qed

lemma init_after_pass:
  assumes f: "factories_ok env tokF peF teF e"
    and ps: "point_space_of sp = Inr ps" "is_PointCloudSpace ps" "shape0 ps = Inr pd"
  shows "\<exists>tok pe te pool wh. init env sp tokF peF teF e sed w0 =
     (if is_Dict sp then
         bindM (lift (sum_shape0 (non_points (space_items sp)))) (\<lambda>sd.
           case sed of
             Some d \<Rightarrow>
               bindM (nn_Linear env sd d) (\<lambda>l.
                 return \<lparr>obs_is_dict = True, tokenizer = tok, pos_embedder = pe,
                         transformer_encoder = te, pooling = pool,
                         state_encoder = Some l, state_dim = d\<rparr>)
           | None \<Rightarrow>
               return \<lparr>obs_is_dict = True, tokenizer = tok, pos_embedder = pe,
                       transformer_encoder = te, pooling = pool,
                       state_encoder = None, state_dim = sd\<rparr>) wh
       else
         (Inr \<lparr>obs_is_dict = False, tokenizer = tok, pos_embedder = pe,
                 transformer_encoder = te, pooling = pool,
                 state_encoder = None, state_dim = 0\<rparr>, wh))"
proof -
  from f obtain tok wa where tok: "tokF pd e w0 = (Inr tok, wa)" "affine (layers tok)"
    unfolding factories_ok_def by (meson returns_objectD)
  from f obtain pe wb where pe: "peF e wa = (Inr pe, wb)" "affine (layers pe)"
    unfolding factories_ok_def by (meson returns_objectD)
  from f obtain te wc where te: "teF e wb = (Inr te, wc)" "affine (layers te)"
    unfolding factories_ok_def by (meson returns_objectD)
  from f obtain pool wd where pool: "SequencePooling_new env e wc = (Inr pool, wd)" "affine (layers pool)"
    unfolding factories_ok_def by (meson returns_objectD)
  from init_pass_returns(1)[where env=env and w=wd, OF tok(2)] obtain mt we
    where mt: "module_apply (init_weights env) (layers tok) wd = (Inr mt, we)" by blast
  from init_pass_returns(1)[where env=env and w=we, OF pe(2)] obtain mp wf
    where mp: "module_apply (init_weights env) (layers pe) we = (Inr mp, wf)" by blast
  from init_pass_returns(1)[where env=env and w=wf, OF te(2)] obtain me wg
    where me: "module_apply (init_weights env) (layers te) wf = (Inr me, wg)" by blast
  from init_pass_returns(1)[where env=env and w=wg, OF pool(2)] obtain ml wh
    where ml: "module_apply (init_weights env) (layers pool) wg = (Inr ml, wh)" by blast
  have "init env sp tokF peF teF e sed w0 =
     (if is_Dict sp then
         bindM (lift (sum_shape0 (non_points (space_items sp)))) (\<lambda>sd.
           case sed of
             Some d \<Rightarrow>
               bindM (nn_Linear env sd d) (\<lambda>l.
                 return \<lparr>obs_is_dict = True, tokenizer = tok\<lparr>layers := mt\<rparr>, pos_embedder = pe\<lparr>layers := mp\<rparr>,
                         transformer_encoder = te\<lparr>layers := me\<rparr>, pooling = pool\<lparr>layers := ml\<rparr>,
                         state_encoder = Some l, state_dim = d\<rparr>)
           | None \<Rightarrow>
               return \<lparr>obs_is_dict = True, tokenizer = tok\<lparr>layers := mt\<rparr>, pos_embedder = pe\<lparr>layers := mp\<rparr>,
                       transformer_encoder = te\<lparr>layers := me\<rparr>, pooling = pool\<lparr>layers := ml\<rparr>,
                       state_encoder = None, state_dim = sd\<rparr>) wh
       else
         (Inr \<lparr>obs_is_dict = False, tokenizer = tok\<lparr>layers := mt\<rparr>, pos_embedder = pe\<lparr>layers := mp\<rparr>,
                 transformer_encoder = te\<lparr>layers := me\<rparr>, pooling = pool\<lparr>layers := ml\<rparr>,
                 state_encoder = None, state_dim = 0\<rparr>, wh))"
    unfolding init_def
    by (simp add: bindM_apply lift_apply return_apply object_apply_def ps tok pe te pool mt mp me ml)
  then show ?thesis by blast
qed

lemma init_assertion_iff:
  assumes f: "factories_ok env tokF peF teF e" and ps: "point_space_of sp = Inr ps"
  shows "fst (init env sp tokF peF teF e sed w) = Inl AssertionError \<longleftrightarrow> \<not> is_PointCloudSpace ps"
proof (cases "is_PointCloudSpace ps")
  case False
  with ps show ?thesis
    by (simp add: init_def bindM_apply lift_apply)
next
  case True
  have "fst (init env sp tokF peF teF e sed w) \<noteq> Inl AssertionError"
  proof (cases "shape0 ps")
    case (Inl err)
    with ps True have "init env sp tokF peF teF e sed w = (Inl err, w)"
      by (simp add: init_def bindM_apply lift_apply)
    with shape0_Inl[OF Inl] show ?thesis by auto
  next
    case (Inr pd)
    from init_after_pass[OF f ps True Inr, of sed w] obtain tok pe te pool wh where
      eq: "init env sp tokF peF teF e sed w =
     (if is_Dict sp then
         bindM (lift (sum_shape0 (non_points (space_items sp)))) (\<lambda>sd.
           case sed of
             Some d \<Rightarrow>
               bindM (nn_Linear env sd d) (\<lambda>l.
                 return \<lparr>obs_is_dict = True, tokenizer = tok, pos_embedder = pe,
                         transformer_encoder = te, pooling = pool,
                         state_encoder = Some l, state_dim = d\<rparr>)
           | None \<Rightarrow>
               return \<lparr>obs_is_dict = True, tokenizer = tok, pos_embedder = pe,
                       transformer_encoder = te, pooling = pool,
                       state_encoder = None, state_dim = sd\<rparr>) wh
       else
         (Inr \<lparr>obs_is_dict = False, tokenizer = tok, pos_embedder = pe,
                 transformer_encoder = te, pooling = pool,
                 state_encoder = None, state_dim = 0\<rparr>, wh))"
      by blast
    show ?thesis
    proof (cases "is_Dict sp")
      case False
      with eq show ?thesis by simp
    next
      case dict: True
      show ?thesis
      proof (cases "sum_shape0 (non_points (space_items sp))")
        case (Inl err)
        with eq dict have "init env sp tokF peF teF e sed w = (Inl err, wh)"
          by (simp add: bindM_apply lift_apply)
        with sum_shape0_Inl[OF Inl] show ?thesis by auto
      next
        case (Inr sd)
        with eq dict show ?thesis
          by (cases sed)
             (auto simp: bindM_apply lift_apply return_apply nn_Linear_def split: prod.splits)
      qed
    qed
  qed
  with True show ?thesis by simp
qed

lemma init_KeyError:
  "map_of items ''points'' = None \<Longrightarrow> init env (Dict items) tokF peF teF e sed w = (Inl KeyError, w)"
  by (simp add: init_def bindM_apply lift_apply getitem_def)

lemma point_space_of_Inl: "point_space_of sp = Inl e \<Longrightarrow> e = KeyError"
  by (cases sp) (auto simp: getitem_def split: option.splits)

lemma init_returns:
  assumes f: "factories_ok env tokF peF teF e"
    and ps: "point_space_of sp = Inr ps" "is_PointCloudSpace ps" "shape0 ps = Inr pd"
    and sd: "is_Dict sp \<Longrightarrow> \<exists>sd. sum_shape0 (non_points (space_items sp)) = Inr sd"
    and d: "\<And>d. is_Dict sp \<Longrightarrow> sed = Some d \<Longrightarrow> 0 \<le> d"
  shows "\<exists>self w1. init env sp tokF peF teF e sed w0 = (Inr self, w1)"
proof -
  from init_after_pass[OF f ps, of sed w0] obtain tok pe te pool wh where
    head: "init env sp tokF peF teF e sed w0 =
     (if is_Dict sp then
         bindM (lift (sum_shape0 (non_points (space_items sp)))) (\<lambda>sd.
           case sed of
             Some d \<Rightarrow>
               bindM (nn_Linear env sd d) (\<lambda>l.
                 return \<lparr>obs_is_dict = True, tokenizer = tok, pos_embedder = pe,
                         transformer_encoder = te, pooling = pool,
                         state_encoder = Some l, state_dim = d\<rparr>)
           | None \<Rightarrow>
               return \<lparr>obs_is_dict = True, tokenizer = tok, pos_embedder = pe,
                       transformer_encoder = te, pooling = pool,
                       state_encoder = None, state_dim = sd\<rparr>) wh
       else
         (Inr \<lparr>obs_is_dict = False, tokenizer = tok, pos_embedder = pe,
                 transformer_encoder = te, pooling = pool,
                 state_encoder = None, state_dim = 0\<rparr>, wh))"
    by blast
  show ?thesis
  proof (cases "is_Dict sp")
    case False
    with head show ?thesis by simp
  next
    case True
    with sd obtain n where n: "sum_shape0 (non_points (space_items sp)) = Inr n" by blast
    then have "0 \<le> n" by (rule sum_shape0_nonneg)
    with head True n d show ?thesis
      by (cases sed) (auto simp: bindM_apply lift_apply return_apply nn_Linear_def split: prod.splits)
  qed
qed

lemma init_Inr_state:
  assumes "init env sp tokF peF teF e sed w0 = (Inr self, w1)"
  shows "obs_is_dict self = is_Dict sp
       \<and> (if is_Dict sp then
              (\<exists>sd wh. sum_shape0 (non_points (space_items sp)) = Inr sd \<and>
                 (case sed of
                    None \<Rightarrow> state_encoder self = None \<and> state_dim self = sd
                  | Some d \<Rightarrow> (\<exists>l. nn_Linear env sd d wh = (Inr l, w1) \<and> state_encoder self = Some l
                                  \<and> state_dim self = d)))
            else state_encoder self = None \<and> state_dim self = 0)"
proof -
  from init_Inr[OF assms] obtain wh where
    "obs_is_dict self = is_Dict sp
         \<and> (if is_Dict sp then
              (\<exists>sd. sum_shape0 (non_points (space_items sp)) = Inr sd \<and>
                 (case sed of
                    None \<Rightarrow> state_encoder self = None \<and> state_dim self = sd \<and> w1 = wh
                  | Some d \<Rightarrow> (\<exists>l. nn_Linear env sd d wh = (Inr l, w1) \<and> state_encoder self = Some l
                                  \<and> state_dim self = d)))
            else state_encoder self = None \<and> state_dim self = 0 \<and> w1 = wh)"
    by (elim exE conjE) (rule that, intro conjI, assumption+)
  then show ?thesis
    by (cases "is_Dict sp"; cases sed) auto
qed

lemma init_Inr_layers:
  assumes "init env sp tokF peF teF e sed w0 = (Inr self, w1)"
  shows "initialised (layers (tokenizer self)) \<and> initialised (layers (pos_embedder self))
       \<and> initialised (layers (transformer_encoder self)) \<and> initialised (layers (pooling self))"
proof -
  from init_Inr[OF assms] obtain tok pe te pool mt mp me ml wd we wf wg wh where
    "module_apply (init_weights env) (layers tok) wd = (Inr mt, we)"
    "module_apply (init_weights env) (layers pe) we = (Inr mp, wf)"
    "module_apply (init_weights env) (layers te) wf = (Inr me, wg)"
    "module_apply (init_weights env) (layers pool) wg = (Inr ml, wh)"
    "tokenizer self = tok\<lparr>layers := mt\<rparr>" "pos_embedder self = pe\<lparr>layers := mp\<rparr>"
    "transformer_encoder self = te\<lparr>layers := me\<rparr>" "pooling self = pool\<lparr>layers := ml\<rparr>"
    by (elim exE conjE) (rule that)
  then show ?thesis
    by (simp add: init_pass_initialised(1))
qed

subsection \<open>Independence of the world state\<close>

lemma deterministic_lift: "deterministic (lift r)"
  by (simp add: deterministic_def lift_def)

lemma deterministic_return: "deterministic (return x)"
  by (simp add: deterministic_def return_def)

lemma deterministic_bindM:
  assumes "deterministic m" and "\<And>x. deterministic (f x)"
  shows "deterministic (bindM m f)"
  unfolding deterministic_def
proof (intro allI)
  fix w1 w2
  obtain r1 v1 where m1: "m w1 = (r1, v1)" by (cases "m w1")
  obtain r2 v2 where m2: "m w2 = (r2, v2)" by (cases "m w2")
  from assms(1) have "fst (m w1) = fst (m w2)" by (simp add: deterministic_def)
  with m1 m2 have r: "r1 = r2" by simp
  show "fst (bindM m f w1) = fst (bindM m f w2)"
  proof (cases r1)
    case (Inl e)
    with m1 m2 r show ?thesis by (auto simp: bindM_def)
  next
    case (Inr x)
    from assms(2)[of x] have "fst (f x v1) = fst (f x v2)"
      by (simp add: deterministic_def)
    with Inr m1 m2 r show ?thesis by (auto simp: bindM_def)
  qed
qed

subsection \<open>Shapes of spaces and fields\<close>

lemma sum_shape0_first_axes:
  "sum_shape0 ss = Inr n \<Longrightarrow>
     \<exists>ds. list_all2 (\<lambda>s d. \<exists>rest. space_shape s = Some (d # rest)) ss ds \<and> n = int (sum_list ds)"
proof (induction ss arbitrary: n)
  case Nil
  then show ?case by simp
next
  case (Cons s ss)
  from Cons.prems obtain d m where d: "shape0 s = Inr d" and m: "sum_shape0 ss = Inr m"
    and n: "n = d + m"
    by (auto split: sum.splits)
  from d obtain k rest where k: "space_shape s = Some (k # rest)" "d = int k"
    by (auto simp: shape0_def split: option.splits list.splits)
  from Cons.IH[OF m] obtain ds
    where ds: "list_all2 (\<lambda>s d. \<exists>rest. space_shape s = Some (d # rest)) ss ds" "m = int (sum_list ds)"
    by blast
  from k ds n have "list_all2 (\<lambda>s d. \<exists>rest. space_shape s = Some (d # rest)) (s # ss) (k # ds)
      \<and> n = int (sum_list (k # ds))" by simp
  then show ?case by blast
qed

lemma nn_Linear_Inr:
  "nn_Linear env i o_f w = (Inr l, w') \<Longrightarrow> in_features l = i \<and> out_features l = o_f \<and> 0 \<le> o_f \<and> 0 \<le> i"
  by (auto simp: nn_Linear_def split: if_splits prod.splits)

lemma concatenate_Cons_Leaf:
  "concatenate (Leaf t # vs) = Inr out \<Longrightarrow> \<exists>ts. vs = map Leaf ts \<and> cat (t # ts) = Inr out"
  by (auto simp: concatenate_def split: sum.splits dest: tensors_of_Inr)

lemma list_all2_field_shapes:
  assumes "list_all2 (field_conforms b) ss (map Leaf ts)"
    and "list_all2 (\<lambda>s d. \<exists>rest. space_shape s = Some (d # rest)) ss ds"
  shows "\<exists>shs. list_all2 (\<lambda>u sh. shape u = b # sh \<and> sh \<noteq> []) ts shs \<and> map hd shs = ds"
  using assms
proof (induction ss arbitrary: ts ds)
  case Nil
  then show ?case by simp
next
  case (Cons s ss)
  from Cons.prems(1) obtain t ts' where ts: "ts = t # ts'"
    by (cases ts) auto
  from Cons.prems(2) obtain d ds' where ds: "ds = d # ds'"
    by (cases ds) auto
  from Cons.prems ts ds obtain rest where s: "space_shape s = Some (d # rest)" "shape t = b # d # rest"
    by (auto simp: field_conforms_def)
  from Cons.IH[of ts' ds'] Cons.prems ts ds obtain shs
    where "list_all2 (\<lambda>u sh. shape u = b # sh \<and> sh \<noteq> []) ts' shs" "map hd shs = ds'"
    by auto
  with s ts ds have "list_all2 (\<lambda>u sh. shape u = b # sh \<and> sh \<noteq> []) ts ((d # rest) # shs)
       \<and> map hd ((d # rest) # shs) = ds" by simp
  then show ?case by blast
qed

subsection \<open>The concrete instance evaluated\<close>

lemma demo_apply:
  "module_apply (init_weights (demo_env b)) demo_layers w = (Inr demo_initialised_layers, Suc (Suc w))"
  by (simp add: demo_layers_def demo_initialised_layers_def demo_env_def bindM_apply return_apply
       init_constant_def)

lemma demo_factories_ok:
  "factories_ok (demo_env b) demo_tokenizer demo_pos_embedder demo_transformer_encoder e"
  by (simp add: factories_ok_def returns_object_def demo_env_def demo_tokenizer_def
        demo_tokenizer_obj_def demo_pos_embedder_def demo_pos_embedder_obj_def
        demo_transformer_encoder_def demo_transformer_encoder_obj_def demo_pooling_obj_def
        demo_layers_def)

lemma demo_objects_layers:
  "layers (demo_tokenizer_obj pd e) = demo_layers"
  "layers (demo_pos_embedder_obj e) = demo_layers"
  "layers (demo_transformer_encoder_obj e) = demo_layers"
  "layers (demo_pooling_obj b e) = demo_layers"
  by (simp_all add: demo_tokenizer_obj_def demo_pos_embedder_obj_def
        demo_transformer_encoder_obj_def demo_pooling_obj_def)

lemma demo_env_sel:
  "SequencePooling_new (demo_env b) e w = (Inr (demo_pooling_obj b e), Suc w)"
  "reset_parameters (demo_env b) i o_f w = ((replicate (o_f * i) (1/4), replicate o_f (1/8)), Suc w)"
  "dict_to_batched_data (demo_env b) pc w = (Inr (zeros [256, 3], zeros [256], None), Suc w)"
  "default_dtype (demo_env b) = Float32"
  by (simp_all add: demo_env_def)

lemma demo_init_bare:
  "init (demo_env b) (PointCloudSpace (Some [3])) demo_tokenizer demo_pos_embedder
        demo_transformer_encoder e sed 0 = (Inr (demo_encoder b e False None 0), 12)"
  by (simp add: init_def bindM_apply lift_apply return_apply object_apply_def shape0_def
        demo_tokenizer_def demo_pos_embedder_def demo_transformer_encoder_def demo_env_sel
        demo_objects_layers demo_apply demo_encoder_def)

lemma demo_init_dict:
  "init (demo_env b) demo_dict_space demo_tokenizer demo_pos_embedder
        demo_transformer_encoder e None 0 = (Inr (demo_encoder b e True None 8), 12)"
  by (simp add: init_def bindM_apply lift_apply return_apply object_apply_def shape0_def
        demo_tokenizer_def demo_pos_embedder_def demo_transformer_encoder_def demo_env_sel
        demo_objects_layers demo_apply demo_encoder_def demo_dict_space_def demo_items_def getitem_def
        non_points_def)

lemma demo_init_dict_projected:
  "0 \<le> d \<Longrightarrow>
   init (demo_env b) demo_dict_space demo_tokenizer demo_pos_embedder
        demo_transformer_encoder e (Some d) 0
     = (Inr (demo_encoder b e True (Some (demo_projection 8 d)) d), 13)"
  by (simp add: init_def bindM_apply lift_apply return_apply object_apply_def shape0_def
        demo_tokenizer_def demo_pos_embedder_def demo_transformer_encoder_def demo_env_sel
        demo_objects_layers demo_apply demo_encoder_def demo_dict_space_def demo_items_def getitem_def
        non_points_def nn_Linear_def demo_projection_def)

lemma demo_contracts:
  "collaborator_contracts (demo_env b) (demo_encoder b (int e) is_dict se sd) observation 3 e b"
  by (simp add: collaborator_contracts_def demo_encoder_def invoke_def demo_env_sel
        demo_tokenizer_obj_def demo_pos_embedder_obj_def demo_transformer_encoder_obj_def
        demo_pooling_obj_def zeros_def)

lemma demo_conforms: "conforms 4 demo_dict_space demo_dict_obs"
  by (simp add: conforms_def demo_dict_space_def demo_items_def demo_dict_obs_def non_points_def
        field_conforms_def zeros_def)

lemma demo_aux_widths: "aux_widths 4 demo_dict_obs [3, 5]"
  by (simp add: aux_widths_def demo_dict_obs_def non_points_def zeros_def)

lemma demo_init_image:
  "init (demo_env b) (Dict demo_image_items) demo_tokenizer demo_pos_embedder
        demo_transformer_encoder e None 0 = (Inr (demo_encoder b e True None 2), 12)"
  by (simp add: init_def bindM_apply lift_apply return_apply object_apply_def shape0_def
        demo_tokenizer_def demo_pos_embedder_def demo_transformer_encoder_def demo_env_sel
        demo_objects_layers demo_apply demo_encoder_def demo_image_items_def getitem_def
        non_points_def)

lemma demo_init_scalar:
  "init (demo_env b) demo_scalar_space demo_tokenizer demo_pos_embedder
        demo_transformer_encoder e sed 0 = (Inl IndexError, 12)"
  by (simp add: init_def bindM_apply lift_apply return_apply object_apply_def shape0_def
        demo_tokenizer_def demo_pos_embedder_def demo_transformer_encoder_def demo_env_sel
        demo_objects_layers demo_apply demo_scalar_space_def getitem_def non_points_def)

lemma demo_point_cloud: "point_cloud_of True demo_dict_obs = Inr demo_cloud"
  by (simp add: point_cloud_of_def demo_dict_obs_def getitem_def)

lemma demo_deterministic:
  "deterministic (dict_to_batched_data (demo_env b) pc)"
  "deterministic (invoke (tokenizer (demo_encoder b e is_dict se sd)) inp)"
  "deterministic (invoke (pos_embedder (demo_encoder b e is_dict se sd)) c)"
  "deterministic (invoke (transformer_encoder (demo_encoder b e is_dict se sd)) xp)"
  "deterministic (invoke (pooling (demo_encoder b e is_dict se sd)) y)"
  by (simp_all add: deterministic_def demo_env_sel demo_encoder_def invoke_def
        demo_tokenizer_obj_def demo_pos_embedder_obj_def demo_transformer_encoder_obj_def
        demo_pooling_obj_def)

subsection \<open>The forward pass in the three configurations\<close>

lemma forward_bare:
  assumes "collaborator_contracts env self observation pd e b" and "\<not> obs_is_dict self"
  shows "\<exists>pos batch color x a c p y pooled w1 w2 w3 w4 w5.
           dict_to_batched_data env observation w = (Inr (pos, batch, color), w1)
         \<and> invoke (tokenizer self) (pos, batch, color) w1 = (Inr (x, a, c), w2)
         \<and> invoke (pos_embedder self) c w2 = (Inr p, w3)
         \<and> invoke (transformer_encoder self) (x, p) w3 = (Inr y, w4)
         \<and> invoke (pooling self) y w4 = (Inr pooled, w5)
         \<and> forward env self observation w = (Inr pooled, w5)
         \<and> shape pooled = [b, e]"
proof -
  from assms(2) have "point_cloud_of (obs_is_dict self) observation = Inr observation"
    by (simp add: point_cloud_of_def)
  from forward_pipeline[OF assms(1) this, of w]
  obtain pos batch color x a c p y pooled w1 w2 w3 w4 w5 where
    "dict_to_batched_data env observation w = (Inr (pos, batch, color), w1)"
    "invoke (tokenizer self) (pos, batch, color) w1 = (Inr (x, a, c), w2)"
    "invoke (pos_embedder self) c w2 = (Inr p, w3)"
    "invoke (transformer_encoder self) (x, p) w3 = (Inr y, w4)"
    "invoke (pooling self) y w4 = (Inr pooled, w5)"
    "shape pooled = [b, e]"
    "forward env self observation w =
       (if obs_is_dict self then
                bindM (case state_encoder self of
                         Some l \<Rightarrow>
                           bindM (lift (concatenate (non_points (tree_items observation)))) (\<lambda>s.
                           bindM (lift (linear_forward env l s)) (\<lambda>s'. return [Leaf s']))
                       | None \<Rightarrow> return (non_points (tree_items observation)))
                  (\<lambda>state. lift (concatenate ([Leaf pooled] @ state))) w5
              else (Inr pooled, w5))"
    by (elim exE conjE) (rule that)
  with assms(2) show ?thesis by auto
qed






lemma conforming_vectors:
  "list_all2 (field_conforms b) ss vs
   \<Longrightarrow> list_all2 (\<lambda>s k. space_shape s = Some [k]) ss ks
   \<Longrightarrow> list_all2 (\<lambda>v k. case v of Leaf t \<Rightarrow> shape t = [b, k] | Tree _ \<Rightarrow> False) vs ks"
proof (induction ss vs arbitrary: ks rule: list_all2_induct)
  case Nil
  then show ?case by simp
next
  case (Cons s ss v vs)
  from Cons.prems obtain k ks' where ks: "ks = k # ks'" by (cases ks) auto
  with Cons show ?case
    by (auto simp: field_conforms_def split: arraytree.splits option.splits)
qed

lemma first_axes_sum_shape0:
  "list_all2 (\<lambda>s d. \<exists>r. space_shape s = Some (d # r)) ss ds
   \<Longrightarrow> sum_shape0 ss = Inr (int (sum_list ds))"
  by (induction ss ds rule: list_all2_induct) (auto simp: shape0_def)

lemma forward_pooled:
  assumes "collaborator_contracts env self observation pd e b"
    and "point_cloud_of (obs_is_dict self) observation = Inr pc"
  shows "\<exists>pooled w'.
           pooled_from env self pc w pooled w' \<and> shape pooled = [b, e]
         \<and> forward env self observation w =
             (if obs_is_dict self then
                bindM (case state_encoder self of
                         Some l \<Rightarrow>
                           bindM (lift (concatenate (non_points (tree_items observation)))) (\<lambda>s.
                           bindM (lift (linear_forward env l s)) (\<lambda>s'. return [Leaf s']))
                       | None \<Rightarrow> return (non_points (tree_items observation)))
                  (\<lambda>state. lift (concatenate ([Leaf pooled] @ state))) w'
              else (Inr pooled, w'))"
proof -
  from forward_pipeline[OF assms, of w]
  obtain pos batch color x a c p y pooled w1 w2 w3 w4 w5 where
    "dict_to_batched_data env pc w = (Inr (pos, batch, color), w1)"
    "invoke (tokenizer self) (pos, batch, color) w1 = (Inr (x, a, c), w2)"
    "invoke (pos_embedder self) c w2 = (Inr p, w3)"
    "invoke (transformer_encoder self) (x, p) w3 = (Inr y, w4)"
    "invoke (pooling self) y w4 = (Inr pooled, w5)"
    "shape pooled = [b, e]"
    "forward env self observation w =
       (if obs_is_dict self then
                bindM (case state_encoder self of
                         Some l \<Rightarrow>
                           bindM (lift (concatenate (non_points (tree_items observation)))) (\<lambda>s.
                           bindM (lift (linear_forward env l s)) (\<lambda>s'. return [Leaf s']))
                       | None \<Rightarrow> return (non_points (tree_items observation)))
                  (\<lambda>state. lift (concatenate ([Leaf pooled] @ state))) w5
              else (Inr pooled, w5))"
    by (elim exE conjE) (rule that)
  then have "pooled_from env self pc w pooled w5 \<and> shape pooled = [b, e]
         \<and> forward env self observation w =
             (if obs_is_dict self then
                bindM (case state_encoder self of
                         Some l \<Rightarrow>
                           bindM (lift (concatenate (non_points (tree_items observation)))) (\<lambda>s.
                           bindM (lift (linear_forward env l s)) (\<lambda>s'. return [Leaf s']))
                       | None \<Rightarrow> return (non_points (tree_items observation)))
                  (\<lambda>state. lift (concatenate ([Leaf pooled] @ state))) w5
              else (Inr pooled, w5))"
    unfolding pooled_from_def by blast
  then show ?thesis by blast
qed

lemma forward_raw:
  assumes contracts: "collaborator_contracts env self observation pd e b"
    and isd: "obs_is_dict self" and se: "state_encoder self = None"
    and pc: "point_cloud_of True observation = Inr pc"
    and aux: "aux_widths b observation ks"
  shows "\<exists>pooled out w'.
           pooled_from env self pc w pooled w' \<and> shape pooled = [b, e]
         \<and> concatenate ([Leaf pooled] @ non_points (tree_items observation)) = Inr out
         \<and> forward env self observation w = (Inr out, w')
         \<and> shape out = [b, e + sum_list ks]"
proof -
  from pc isd have "point_cloud_of (obs_is_dict self) observation = Inr pc" by simp
  from forward_pooled[OF contracts this, of w] obtain pooled w'
    where po: "pooled_from env self pc w pooled w'" and sh: "shape pooled = [b, e]"
      and tail: "forward env self observation w =
             (if obs_is_dict self then
                bindM (case state_encoder self of
                         Some l \<Rightarrow>
                           bindM (lift (concatenate (non_points (tree_items observation)))) (\<lambda>s.
                           bindM (lift (linear_forward env l s)) (\<lambda>s'. return [Leaf s']))
                       | None \<Rightarrow> return (non_points (tree_items observation)))
                  (\<lambda>state. lift (concatenate ([Leaf pooled] @ state))) w'
              else (Inr pooled, w'))"
    by (elim exE conjE) (rule that)
  from tail isd se
  have fwd: "forward env self observation w =
                  lift (concatenate ([Leaf pooled] @ non_points (tree_items observation))) w'"
    by (simp add: bindM_apply return_apply)
  from aux sh have "list_all2 (\<lambda>v k. case v of Leaf t \<Rightarrow> shape t = [b, k] | Tree _ \<Rightarrow> False)
                      ([Leaf pooled] @ non_points (tree_items observation)) (e # ks)"
    by (simp add: aux_widths_def)
  from concatenate_rows[OF _ this] obtain out
    where "concatenate ([Leaf pooled] @ non_points (tree_items observation)) = Inr out"
      "shape out = [b, e + sum_list ks]" by auto
  with po sh fwd show ?thesis by (auto simp: lift_apply)
qed


lemma not_has_axis_sum_shape0:
  "\<not> list_all has_axis ss \<Longrightarrow> \<exists>err. sum_shape0 ss = Inl err"
proof (induction ss)
  case Nil
  then show ?case by simp
next
  case (Cons s ss)
  show ?case
  proof (cases "shape0 s")
    case (Inl err)
    then show ?thesis by simp
  next
    case (Inr d)
    then have "has_axis s"
      by (auto simp: has_axis_def shape0_def split: option.splits list.splits)
    with Cons obtain err where "sum_shape0 ss = Inl err" by auto
    with Inr show ?thesis by simp
  qed
qed


lemma demo_image_conforms: "conforms 4 (Dict demo_image_items) demo_image_obs"
  by (simp add: conforms_def demo_image_items_def demo_image_obs_def non_points_def
        field_conforms_def zeros_def)

lemma demo_image_point_cloud: "point_cloud_of True demo_image_obs = Inr demo_cloud"
  by (simp add: point_cloud_of_def demo_image_obs_def getitem_def)


lemma demo_forward_image:
  "fst (forward (demo_env 4) (demo_encoder 4 128 True None 2) demo_image_obs 0) = Inl RuntimeError"
proof -
  have c: "collaborator_contracts (demo_env 4) (demo_encoder 4 (int 128) True None 2) demo_image_obs 3 128 4"
    by (rule demo_contracts)
  have pc: "point_cloud_of (obs_is_dict (demo_encoder 4 (int 128) True None 2)) demo_image_obs = Inr demo_cloud"
    by (simp add: demo_encoder_def demo_image_point_cloud)
  from forward_pooled[OF c pc, of 0] obtain pooled w'
    where "shape pooled = [4, 128]"
      "forward (demo_env 4) (demo_encoder 4 128 True None 2) demo_image_obs 0
         = lift (concatenate ([Leaf pooled] @ non_points (tree_items demo_image_obs))) w'"
    by (auto simp: demo_encoder_def bindM_apply return_apply)
  then show ?thesis
    by (simp add: lift_apply concatenate_def cat_def demo_image_obs_def non_points_def zeros_def)
qed


section \<open>The claims\<close>

text \<open>
  Claim C1. The property \<^verbatim>\<open>embed_dim\<close> is the transformer encoder's width plus the recorded
  state width, and for an encoder built from any observation space (bare, dict without
  projection, dict with projection), whose collaborators meet their contracts at width \<open>e\<close>,
  every tensor that \<^verbatim>\<open>forward\<close> returns on a conforming observation has that value as its
  last dimension.
\<close>

theorem embed_dim_matches_forward_width:
  assumes init: "init env obs_space tokF peF teF (int e) sed w0 = (Inr self, w1)"
    and contracts: "collaborator_contracts env self observation pd e b"
    and conf: "conforms b obs_space observation"
    and fwd: "forward env self observation w = (Inr out, w')"
  shows "embed_dim self = attr_embed_dim (transformer_encoder self) + state_dim self
       \<and> shape out \<noteq> [] \<and> int (last (shape out)) = embed_dim self"
proof -
  have attr: "attr_embed_dim (transformer_encoder self) = int e"
    using contracts by (simp add: collaborator_contracts_def)
  from fwd obtain pc where pc: "point_cloud_of (obs_is_dict self) observation = Inr pc"
    by (auto simp: forward_def bindM_eq_Inr lift_apply)
  from forward_pipeline[OF contracts pc, of w] obtain pooled w5
    where pooled: "shape pooled = [b, e]"
      and tail: "forward env self observation w =
             (if obs_is_dict self then
                bindM (case state_encoder self of
                         Some l \<Rightarrow>
                           bindM (lift (concatenate (non_points (tree_items observation)))) (\<lambda>s.
                           bindM (lift (linear_forward env l s)) (\<lambda>s'. return [Leaf s']))
                       | None \<Rightarrow> return (non_points (tree_items observation)))
                  (\<lambda>state. lift (concatenate ([Leaf pooled] @ state))) w5
              else (Inr pooled, w5))"
    by blast
  note st = init_Inr_state[OF init]
  have "shape out = [b, nat (int e + state_dim self)] \<and> 0 \<le> state_dim self"
  proof (cases "is_Dict obs_space")
    case False
    with st tail fwd pooled show ?thesis by auto
  next
    case True
    with st obtain sd wh where isd: "obs_is_dict self"
      and sd: "sum_shape0 (non_points (space_items obs_space)) = Inr sd"
      and cases: "case sed of
                    None \<Rightarrow> state_encoder self = None \<and> state_dim self = sd
                  | Some d \<Rightarrow> (\<exists>l. nn_Linear env sd d wh = (Inr l, w1) \<and> state_encoder self = Some l
                                  \<and> state_dim self = d)"
      by auto
    show ?thesis
    proof (cases sed)
      case None
      with cases have se: "state_encoder self = None" and sdim: "state_dim self = sd" by auto
      from tail fwd isd se
      have c: "concatenate (Leaf pooled # non_points (tree_items observation)) = Inr out"
        by (simp add: bindM_apply return_apply lift_apply)
      from concatenate_Cons_Leaf[OF c] obtain ts
        where ts: "non_points (tree_items observation) = map Leaf ts" "cat (pooled # ts) = Inr out"
        by blast
      from conf True obtain oitems where o: "observation = Tree oitems"
        and fc: "list_all2 (field_conforms b) (non_points (space_items obs_space)) (non_points oitems)"
        by (auto simp: conforms_def split: arraytree.splits)
      from sum_shape0_first_axes[OF sd] obtain ds
        where ds: "list_all2 (\<lambda>s d. \<exists>rest. space_shape s = Some (d # rest))
                     (non_points (space_items obs_space)) ds" "sd = int (sum_list ds)"
        by blast
      from fc o ts(1) have "list_all2 (field_conforms b) (non_points (space_items obs_space)) (map Leaf ts)"
        by simp
      from list_all2_field_shapes[OF this ds(1)] obtain shs
        where shs: "list_all2 (\<lambda>u sh. shape u = b # sh \<and> sh \<noteq> []) ts shs" "map hd shs = ds"
        by blast
      from cat_returned_shape[OF ts(2) pooled shs(1)] shs(2) ds(2) sdim
      show ?thesis by (simp add: nat_add_distrib)
    next
      case (Some d)
      with cases obtain l where l: "nn_Linear env sd d wh = (Inr l, w1)"
        and se: "state_encoder self = Some l" and sdim: "state_dim self = d" by auto
      from nn_Linear_Inr[OF l] have d: "out_features l = d" "0 \<le> d" by auto
      from tail fwd isd se
      have "bindM (bindM (lift (concatenate (non_points (tree_items observation)))) (\<lambda>s.
                   bindM (lift (linear_forward env l s)) (\<lambda>s'. return [Leaf s'])))
              (\<lambda>state. lift (concatenate ([Leaf pooled] @ state))) w5 = (Inr out, w')"
        by simp
      then obtain s s'
        where s': "linear_forward env l s = Inr s'"
          and c: "concatenate [Leaf pooled, Leaf s'] = Inr out"
        by (auto simp: bindM_eq_Inr return_apply lift_apply)
      from s' d have "shape s' = butlast (shape s) @ [nat d]"
        by (auto simp: linear_forward_def split: if_splits)
      moreover from c have "cat [pooled, s'] = Inr out"
        by (simp add: concatenate_def)
      ultimately have "shape out = [b, e + nat d]"
        using pooled by (rule_tac cat_pair_last) auto
      with d sdim show ?thesis by (simp add: nat_add_distrib)
    qed
  qed
  with attr show ?thesis by (simp add: embed_dim_def)
qed

theorem embed_dim_matches_forward_width_witness:
  "\<exists>out w'. forward (demo_env 4) (demo_encoder 4 128 True None 8) demo_dict_obs 0 = (Inr out, w')
     \<and> embed_dim (demo_encoder 4 128 True None 8) = 136
     \<and> shape out \<noteq> [] \<and> int (last (shape out)) = 136"
proof -
  have c: "collaborator_contracts (demo_env 4) (demo_encoder 4 (int 128) True None 8) demo_dict_obs 3 128 4"
    by (rule demo_contracts)
  from forward_raw[OF c _ _ demo_point_cloud demo_aux_widths, of 0] obtain out w'
    where fwd: "forward (demo_env 4) (demo_encoder 4 (int 128) True None 8) demo_dict_obs 0 = (Inr out, w')"
    by (auto simp: demo_encoder_def)
  from embed_dim_matches_forward_width[OF demo_init_dict[of 4 "int 128"] c demo_conforms fwd] fwd
  show ?thesis
    by (auto simp: embed_dim_def demo_encoder_def demo_transformer_encoder_obj_def)
qed

text \<open>
  Claim C2, as amended. After construction, every linear layer inside the four sub-modules
  visited by the initialisation pass (tokenizer, positional embedder, transformer encoder,
  pooling) has an all-zero bias when it has a bias, and every layer normalisation there has
  an all-zero bias and an all-one weight. The state projection is created after the pass:
  it is the layer as \<^verbatim>\<open>nn.Linear\<close> built it, with the default initialisation.
\<close>

theorem init_pass_covers_submodules_only:
  assumes "init env obs_space tokF peF teF e sed w0 = (Inr self, w1)"
  shows "initialised (layers (tokenizer self)) \<and> initialised (layers (pos_embedder self))
       \<and> initialised (layers (transformer_encoder self)) \<and> initialised (layers (pooling self))
       \<and> (\<forall>l. state_encoder self = Some l \<longrightarrow> (\<exists>sd d w. nn_Linear env sd d w = (Inr l, w1)))"
proof -
  have "\<exists>sd d w. nn_Linear env sd d w = (Inr l, w1)" if "state_encoder self = Some l" for l
    using init_Inr_state[OF assms] that
    by (cases "is_Dict obs_space"; cases sed) auto
  with init_Inr_layers[OF assms] show ?thesis by blast
qed

theorem init_pass_covers_submodules_only_witness:
  "initialised (layers (tokenizer (demo_encoder 4 128 True (Some (demo_projection 8 16)) 16)))
   \<and> initialised (layers (pos_embedder (demo_encoder 4 128 True (Some (demo_projection 8 16)) 16)))
   \<and> initialised (layers (transformer_encoder (demo_encoder 4 128 True (Some (demo_projection 8 16)) 16)))
   \<and> initialised (layers (pooling (demo_encoder 4 128 True (Some (demo_projection 8 16)) 16)))
   \<and> (\<exists>sd d w. nn_Linear (demo_env 4) sd d w = (Inr (demo_projection 8 16), 13))"
  using init_pass_covers_submodules_only[OF demo_init_dict_projected[of 16 4 128]]
  by (simp add: demo_encoder_def)

text \<open>
  The claim as stated fails: with the instance's default initialiser the state projection of
  the constructed encoder has the bias \<open>1/8\<close> in every entry.
\<close>

theorem state_projection_bias_counterexample:
  "init (demo_env 4) demo_dict_space demo_tokenizer demo_pos_embedder demo_transformer_encoder
        128 (Some 16) 0
     = (Inr (demo_encoder 4 128 True (Some (demo_projection 8 16)) 16), 13)
   \<and> state_encoder (demo_encoder 4 128 True (Some (demo_projection 8 16)) 16)
       = Some (demo_projection 8 16)
   \<and> bias (demo_projection 8 16) = Some (replicate 16 (1/8))
   \<and> \<not> initialised (Linear (demo_projection 8 16))"
proof -
  have "\<not> list_all (\<lambda>v::real. v = 0) (replicate 16 (1/8))"
    by (simp add: eval_nat_numeral)
  then show ?thesis
    by (simp add: demo_init_dict_projected demo_encoder_def demo_projection_def)
qed

text \<open>
  Claim C7. When the decomposition utility and the four sub-modules return results that do
  not depend on the world state, neither does \<^verbatim>\<open>forward\<close>: from any two world states it
  returns the same tensor (or the same exception) for the same encoder and observation, and
  so does a second call made in the world the first call left behind.
\<close>

theorem forward_is_deterministic:
  assumes "\<forall>pc. deterministic (dict_to_batched_data env pc)"
    and "\<forall>inp. deterministic (invoke (tokenizer self) inp)"
    and "\<forall>c. deterministic (invoke (pos_embedder self) c)"
    and "\<forall>xp. deterministic (invoke (transformer_encoder self) xp)"
    and "\<forall>x. deterministic (invoke (pooling self) x)"
  shows "fst (forward env self observation w1) = fst (forward env self observation w2)
       \<and> fst (forward env self observation (snd (forward env self observation w1)))
           = fst (forward env self observation w1)"
proof -
  have "deterministic (forward env self observation)"
    unfolding forward_def
    by (intro deterministic_bindM deterministic_lift deterministic_return)
       (auto simp: assms deterministic_lift deterministic_return
             intro!: deterministic_bindM deterministic_lift deterministic_return
             split: option.splits prod.splits)
  then show ?thesis by (simp add: deterministic_def)
qed

theorem forward_is_deterministic_witness:
  "fst (forward (demo_env 4) (demo_encoder 4 128 True None 8) demo_dict_obs 0)
     = fst (forward (demo_env 4) (demo_encoder 4 128 True None 8) demo_dict_obs 7)
   \<and> fst (forward (demo_env 4) (demo_encoder 4 128 True None 8) demo_dict_obs
            (snd (forward (demo_env 4) (demo_encoder 4 128 True None 8) demo_dict_obs 0)))
     = fst (forward (demo_env 4) (demo_encoder 4 128 True None 8) demo_dict_obs 0)"
  using forward_is_deterministic[of "demo_env 4" "demo_encoder 4 128 True None 8" demo_dict_obs 0 7]
  by (simp add: demo_deterministic)

text \<open>
  Claim C8. For an observation space that is not a dict, \<^verbatim>\<open>state_embed_dim\<close> is never read:
  construction with any value is construction with \<^verbatim>\<open>None\<close>, so the encoder (and with it
  \<^verbatim>\<open>embed_dim\<close> and every forward output) is the same, no projection layer exists and the
  state width is 0.
\<close>

theorem state_embed_dim_ignored_for_bare_space:
  assumes "\<not> is_Dict obs_space"
  shows "init env obs_space tokF peF teF e sed = init env obs_space tokF peF teF e None
       \<and> (\<forall>self w0 w1. init env obs_space tokF peF teF e sed w0 = (Inr self, w1) \<longrightarrow>
             state_encoder self = None \<and> state_dim self = 0
           \<and> embed_dim self = attr_embed_dim (transformer_encoder self))"
proof -
  have "init env obs_space tokF peF teF e sed = init env obs_space tokF peF teF e None"
    using assms by (simp add: init_def)
  moreover have "state_encoder self = None \<and> state_dim self = 0
           \<and> embed_dim self = attr_embed_dim (transformer_encoder self)"
    if "init env obs_space tokF peF teF e sed w0 = (Inr self, w1)" for self w0 w1
    using init_Inr_state[OF that] assms by (simp add: embed_dim_def)
  ultimately show ?thesis by blast
qed

theorem state_embed_dim_ignored_for_bare_space_witness:
  "init (demo_env 4) (PointCloudSpace (Some [3])) demo_tokenizer demo_pos_embedder
        demo_transformer_encoder 128 (Some 16)
     = init (demo_env 4) (PointCloudSpace (Some [3])) demo_tokenizer demo_pos_embedder
        demo_transformer_encoder 128 None
   \<and> init (demo_env 4) (PointCloudSpace (Some [3])) demo_tokenizer demo_pos_embedder
        demo_transformer_encoder 128 (Some 16) 0 = (Inr (demo_encoder 4 128 False None 0), 12)
   \<and> state_encoder (demo_encoder 4 128 False None 0) = None
   \<and> state_dim (demo_encoder 4 128 False None 0) = 0
   \<and> embed_dim (demo_encoder 4 128 False None 0) = 128"
  using state_embed_dim_ignored_for_bare_space[of "PointCloudSpace (Some [3])" "demo_env 4"
          demo_tokenizer demo_pos_embedder demo_transformer_encoder 128 "Some 16"]
        demo_init_bare[of 4 128 "Some 16"]
  by (simp add: embed_dim_def demo_encoder_def demo_transformer_encoder_obj_def)

text \<open>
  Claim C10. For a dict space, the combined auxiliary width computed at construction is
  the sum, over the sub-spaces other than \<^verbatim>\<open>"points"\<close>, of the first entry of each
  sub-space's shape; later entries of a shape do not count. That sum is the recorded state
  width without a projection and the projection's input width with one.
\<close>

theorem state_width_sums_first_axes:
  assumes "init env (Dict items) tokF peF teF e sed w0 = (Inr self, w1)"
  shows "\<exists>ds. list_all2 (\<lambda>s d. \<exists>rest. space_shape s = Some (d # rest)) (non_points items) ds
            \<and> (case sed of
                 None \<Rightarrow> state_encoder self = None \<and> state_dim self = int (sum_list ds)
               | Some d \<Rightarrow> (\<exists>l. state_encoder self = Some l \<and> in_features l = int (sum_list ds)
                               \<and> out_features l = d \<and> state_dim self = d))"
proof -
  from init_Inr_state[OF assms] obtain sd wh
    where sd: "sum_shape0 (non_points items) = Inr sd"
      and tail: "case sed of
                   None \<Rightarrow> state_encoder self = None \<and> state_dim self = sd
                 | Some d \<Rightarrow> (\<exists>l. nn_Linear env sd d wh = (Inr l, w1) \<and> state_encoder self = Some l
                                 \<and> state_dim self = d)"
    by auto
  from sum_shape0_first_axes[OF sd] obtain ds
    where ds: "list_all2 (\<lambda>s d. \<exists>rest. space_shape s = Some (d # rest)) (non_points items) ds"
      "sd = int (sum_list ds)" by blast
  have "case sed of
                 None \<Rightarrow> state_encoder self = None \<and> state_dim self = int (sum_list ds)
               | Some d \<Rightarrow> (\<exists>l. state_encoder self = Some l \<and> in_features l = int (sum_list ds)
                               \<and> out_features l = d \<and> state_dim self = d)"
  proof (cases sed)
    case None
    with tail ds(2) show ?thesis by simp
  next
    case (Some d)
    with tail obtain l where "nn_Linear env sd d wh = (Inr l, w1)" "state_encoder self = Some l"
      "state_dim self = d" by auto
    with nn_Linear_Inr[OF this(1)] ds(2) Some show ?thesis by simp
  qed
  with ds(1) show ?thesis by blast
qed

theorem state_width_sums_first_axes_witness:
  "\<exists>ds. list_all2 (\<lambda>s d. \<exists>rest. space_shape s = Some (d # rest)) [OtherSpace (Some [2, 3])] ds
      \<and> state_encoder (demo_encoder 4 128 True None 2) = None
      \<and> state_dim (demo_encoder 4 128 True None 2) = int (sum_list ds) \<and> sum_list ds = 2"
proof -
  from state_width_sums_first_axes[OF demo_init_image[of 4 128]] obtain ds
    where ds: "list_all2 (\<lambda>s d. \<exists>rest. space_shape s = Some (d # rest)) (non_points demo_image_items) ds"
      "state_encoder (demo_encoder 4 128 True None 2) = None"
      "state_dim (demo_encoder 4 128 True None 2) = int (sum_list ds)"
    by auto
  from ds(1) have "ds = [2]"
    by (auto simp: demo_image_items_def non_points_def list_all2_Cons1)
  with ds show ?thesis
    by (intro exI[of _ "[2]"]) (simp add: demo_image_items_def non_points_def)
qed

text \<open>
  Claim C5. For an encoder built from a bare (non-dict) observation space whose
  collaborators meet their contracts at batch size \<open>b\<close>, \<^verbatim>\<open>forward\<close> decomposes the
  observation itself into positions, batch index and colours, runs the tokenizer on them,
  the positional embedder on the patch centers, the transformer encoder on the tokens and
  the positional embeddings, pools, and returns the pooled tensor as it is: shape \<open>[b, e]\<close>.
\<close>

theorem bare_forward_returns_pooled_embedding:
  assumes "init env obs_space tokF peF teF (int e) sed w0 = (Inr self, w1)"
    and "\<not> is_Dict obs_space"
    and "collaborator_contracts env self observation pd e b"
  shows "\<exists>pos batch color x a c p y pooled wa wb wc wd we.
           dict_to_batched_data env observation w = (Inr (pos, batch, color), wa)
         \<and> invoke (tokenizer self) (pos, batch, color) wa = (Inr (x, a, c), wb)
         \<and> invoke (pos_embedder self) c wb = (Inr p, wc)
         \<and> invoke (transformer_encoder self) (x, p) wc = (Inr y, wd)
         \<and> invoke (pooling self) y wd = (Inr pooled, we)
         \<and> forward env self observation w = (Inr pooled, we)
         \<and> shape pooled = [b, e]"
proof -
  from init_Inr_state[OF assms(1)] assms(2) have "\<not> obs_is_dict self" by simp
  from forward_bare[OF assms(3) this] show ?thesis .
qed

theorem bare_forward_returns_pooled_embedding_witness:
  "\<exists>pooled w'. forward (demo_env 4) (demo_encoder 4 128 False None 0) demo_cloud 0 = (Inr pooled, w')
     \<and> shape pooled = [4, 128]"
proof -
  have c: "collaborator_contracts (demo_env 4) (demo_encoder 4 (int 128) False None 0) demo_cloud 3 128 4"
    by (rule demo_contracts)
  from bare_forward_returns_pooled_embedding[OF demo_init_bare[of 4 "int 128" None] _ c, of 0]
  show ?thesis by auto
qed

text \<open>
  Claim C9. Construction with a dict space that has no \<^verbatim>\<open>"points"\<close> entry fails with
  \<^verbatim>\<open>KeyError\<close> from the sub-space access, before anything else has run (the world state
  is untouched, whatever the factories are). When the factories return their objects, the
  assertion failure occurs only when the point-cloud sub-space exists and is not a
  \<^verbatim>\<open>PointCloudSpace\<close>.
\<close>

theorem missing_points_entry_raises_KeyError:
  "(map_of items ''points'' = None \<longrightarrow>
      init env (Dict items) tokF peF teF e sed w = (Inl KeyError, w))
   \<and> (factories_ok env tokF' peF' teF' e'
       \<and> fst (init env obs_space tokF' peF' teF' e' sed' w') = Inl AssertionError \<longrightarrow>
         (\<exists>ps. point_space_of obs_space = Inr ps \<and> \<not> is_PointCloudSpace ps))"
proof -
  have "\<exists>ps. point_space_of obs_space = Inr ps \<and> \<not> is_PointCloudSpace ps"
    if f: "factories_ok env tokF' peF' teF' e'"
      and a: "fst (init env obs_space tokF' peF' teF' e' sed' w') = Inl AssertionError"
  proof (cases "point_space_of obs_space")
    case (Inl err)
    then have "init env obs_space tokF' peF' teF' e' sed' w' = (Inl err, w')"
      by (simp add: init_def bindM_apply lift_apply)
    with a point_space_of_Inl[OF Inl] show ?thesis by simp
  next
    case (Inr ps)
    with init_assertion_iff[OF f Inr, of sed' w'] a show ?thesis by simp
  qed
  then show ?thesis by (auto simp: init_KeyError)
qed

theorem missing_points_entry_raises_KeyError_witness:
  "init (demo_env 4) (Dict [(''joint'', OtherSpace (Some [3]))]) demo_tokenizer demo_pos_embedder
        demo_transformer_encoder 128 (Some 16) 5 = (Inl KeyError, 5)
   \<and> fst (init (demo_env 4) (Dict [(''points'', OtherSpace (Some [3]))]) demo_tokenizer
             demo_pos_embedder demo_transformer_encoder 128 None 0) = Inl AssertionError
   \<and> (\<exists>ps. point_space_of (Dict [(''points'', OtherSpace (Some [3]))]) = Inr ps
          \<and> \<not> is_PointCloudSpace ps)"
proof -
  have a: "fst (init (demo_env 4) (Dict [(''points'', OtherSpace (Some [3]))]) demo_tokenizer
             demo_pos_embedder demo_transformer_encoder 128 None 0) = Inl AssertionError"
    by (simp add: init_def bindM_apply lift_apply getitem_def)
  from missing_points_entry_raises_KeyError[of "[(''joint'', OtherSpace (Some [3]))]"
         "demo_env 4" demo_tokenizer demo_pos_embedder demo_transformer_encoder 128 "Some 16" 5
         demo_tokenizer demo_pos_embedder demo_transformer_encoder 128
         "Dict [(''points'', OtherSpace (Some [3]))]" None 0]
       demo_factories_ok[of 4 128] a
  show ?thesis by simp
qed




text \<open>
  Claim C4, as amended. For a dict space whose \<^verbatim>\<open>"points"\<close> entry is a point-cloud space
  with a point dimension and whose auxiliary sub-spaces all have a shape with a first entry
  (these first entries summing to \<open>S\<close>), without \<^verbatim>\<open>state_embed_dim\<close>, and with factories
  that return objects whose layer normalisations have their affine parameters:
  construction returns an encoder with no projection layer and state width \<open>S\<close>. If
  moreover every auxiliary sub-space has exactly one axis, the observation conforms at
  batch size \<open>b\<close> and the collaborators of the encoder meet their contracts, then
  \<^verbatim>\<open>forward\<close> returns the concatenation of the point embedding of
  \<^verbatim>\<open>observation["points"]\<close> with the auxiliary fields, of shape \<open>[b, e + S]\<close>, which is
  what \<^verbatim>\<open>embed_dim\<close> reports.
\<close>

theorem unprojected_composite_output_width:
  assumes points: "map_of items ''points'' = Some (PointCloudSpace (Some (pd # rest)))"
    and fac: "factories_ok env tokF peF teF (int e)"
    and axes: "list_all2 (\<lambda>s k. \<exists>r. space_shape s = Some (k # r)) (non_points items) ks"
  shows "\<exists>self w1.
           init env (Dict items) tokF peF teF (int e) None w0 = (Inr self, w1)
         \<and> state_encoder self = None \<and> state_dim self = int (sum_list ks)
         \<and> (list_all2 (\<lambda>s k. space_shape s = Some [k]) (non_points items) ks
              \<and> conforms b (Dict items) observation
              \<and> collaborator_contracts env self observation pd e b
            \<longrightarrow> (\<exists>pc pooled out w'.
                   point_cloud_of True observation = Inr pc
                 \<and> pooled_from env self pc w pooled w' \<and> shape pooled = [b, e]
                 \<and> concatenate ([Leaf pooled] @ non_points (tree_items observation)) = Inr out
                 \<and> forward env self observation w = (Inr out, w')
                 \<and> shape out = [b, e + sum_list ks]
                 \<and> embed_dim self = int (e + sum_list ks)))"
proof -
  have ps: "point_space_of (Dict items) = Inr (PointCloudSpace (Some (pd # rest)))"
    using points by (simp add: getitem_def)
  have s0: "shape0 (PointCloudSpace (Some (pd # rest))) = Inr (int pd)"
    by (simp add: shape0_def)
  from first_axes_sum_shape0[OF axes]
  have sd: "sum_shape0 (non_points items) = Inr (int (sum_list ks))" .
  from init_returns[OF fac ps _ s0, of None w0] sd obtain self w1
    where init: "init env (Dict items) tokF peF teF (int e) None w0 = (Inr self, w1)"
    by auto
  from init_Inr_state[OF init] sd
  have st: "obs_is_dict self" "state_encoder self = None" "state_dim self = int (sum_list ks)"
    by auto
  have "\<exists>pc pooled out w'.
                   point_cloud_of True observation = Inr pc
                 \<and> pooled_from env self pc w pooled w' \<and> shape pooled = [b, e]
                 \<and> concatenate ([Leaf pooled] @ non_points (tree_items observation)) = Inr out
                 \<and> forward env self observation w = (Inr out, w')
                 \<and> shape out = [b, e + sum_list ks]
                 \<and> embed_dim self = int (e + sum_list ks)"
    if vec: "list_all2 (\<lambda>s k. space_shape s = Some [k]) (non_points items) ks"
      and conf: "conforms b (Dict items) observation"
      and c: "collaborator_contracts env self observation pd e b"
  proof -
    from conf obtain oitems where o: "observation = Tree oitems"
      and fc: "list_all2 (field_conforms b) (non_points items) (non_points oitems)"
      by (auto simp: conforms_def split: arraytree.splits)
    from conforming_vectors[OF fc vec] o have aux: "aux_widths b observation ks"
      by (simp add: aux_widths_def)
    from c have "attr_embed_dim (transformer_encoder self) = int e"
      by (simp add: collaborator_contracts_def)
    with st have ed: "embed_dim self = int (e + sum_list ks)"
      by (simp add: embed_dim_def)
    from conforms_points[OF conf points] obtain pc
      where pc: "point_cloud_of True observation = Inr pc" by blast
    from forward_raw[OF c st(1,2) pc aux, of w] pc ed show ?thesis by blast
  qed
  with init st show ?thesis by blast
qed

theorem unprojected_composite_output_width_witness:
  "\<exists>self w1 out w'.
     init (demo_env 4) (Dict demo_items) demo_tokenizer demo_pos_embedder
          demo_transformer_encoder 128 None 0 = (Inr self, w1)
   \<and> state_encoder self = None \<and> state_dim self = 8 \<and> embed_dim self = 136
   \<and> forward (demo_env 4) self demo_dict_obs 0 = (Inr out, w')
   \<and> shape out = [4, 136]"
proof -
  have p: "map_of demo_items ''points'' = Some (PointCloudSpace (Some (3 # [])))"
    by (simp add: demo_items_def)
  have a: "list_all2 (\<lambda>s k. \<exists>r. space_shape s = Some (k # r)) (non_points demo_items) [3, 5]"
    by (simp add: demo_items_def non_points_def)
  have v: "list_all2 (\<lambda>s k. space_shape s = Some [k]) (non_points demo_items) [3, 5]"
    by (simp add: demo_items_def non_points_def)
  from unprojected_composite_output_width[where ?w0.0 = 0 and w = 0 and e = 128 and b = 4
         and env = "demo_env 4" and observation = demo_dict_obs,
         OF p demo_factories_ok a]
  obtain self w1 where
    i: "init (demo_env 4) (Dict demo_items) demo_tokenizer demo_pos_embedder
             demo_transformer_encoder (int 128) None 0 = (Inr self, w1)"
    and l: "state_encoder self = None" "state_dim self = int (sum_list [3, 5])"
    and f: "list_all2 (\<lambda>s k. space_shape s = Some [k]) (non_points demo_items) [3, 5]
              \<and> conforms 4 (Dict demo_items) demo_dict_obs
              \<and> collaborator_contracts (demo_env 4) self demo_dict_obs 3 128 4
            \<longrightarrow> (\<exists>pc pooled out w'.
                   point_cloud_of True demo_dict_obs = Inr pc
                 \<and> pooled_from (demo_env 4) self pc 0 pooled w' \<and> shape pooled = [4, 128]
                 \<and> concatenate ([Leaf pooled] @ non_points (tree_items demo_dict_obs)) = Inr out
                 \<and> forward (demo_env 4) self demo_dict_obs 0 = (Inr out, w')
                 \<and> shape out = [4, 128 + sum_list [3, 5]]
                 \<and> embed_dim self = int (128 + sum_list [3, 5]))"
    by (elim exE conjE) (rule that, simp_all)
  from i demo_init_dict[of 4 "int 128"]
  have self: "self = demo_encoder 4 (int 128) True None 8"
    by (simp add: demo_dict_space_def)
  have "collaborator_contracts (demo_env 4) self demo_dict_obs 3 128 4"
    unfolding self by (rule demo_contracts)
  with f v demo_conforms obtain out w'
    where "forward (demo_env 4) self demo_dict_obs 0 = (Inr out, w')" "shape out = [4, 136]"
      "embed_dim self = 136"
    by (auto simp: demo_dict_space_def)
  with i l show ?thesis by auto
qed

text \<open>
  The claim as stated fails on a dict space with an auxiliary sub-space of two axes
  (shape \<open>(2, 3)\<close>): construction records the state width 2 and \<^verbatim>\<open>embed_dim\<close> reports
  130, and on the conforming observation (the field has shape \<open>[4, 2, 3]\<close>) the
  concatenation with the point embedding \<open>[4, 128]\<close> raises.
\<close>

theorem unprojected_image_sub_space_counterexample:
  "init (demo_env 4) (Dict demo_image_items) demo_tokenizer demo_pos_embedder
        demo_transformer_encoder 128 None 0 = (Inr (demo_encoder 4 128 True None 2), 12)
   \<and> state_dim (demo_encoder 4 128 True None 2) = 2
   \<and> embed_dim (demo_encoder 4 128 True None 2) = 130
   \<and> conforms 4 (Dict demo_image_items) demo_image_obs
   \<and> collaborator_contracts (demo_env 4) (demo_encoder 4 128 True None 2) demo_image_obs 3 128 4
   \<and> fst (forward (demo_env 4) (demo_encoder 4 128 True None 2) demo_image_obs 0)
       = Inl RuntimeError"
  using demo_contracts[of 4 128 True None 2 demo_image_obs]
  by (simp add: demo_init_image demo_image_conforms demo_forward_image)
     (simp add: embed_dim_def demo_encoder_def demo_transformer_encoder_obj_def)

text \<open>
  Claim C6, as amended. Let the point-cloud sub-space exist (the space itself, or the
  \<^verbatim>\<open>"points"\<close> entry of a dict space) and let the factories return objects whose layer
  normalisations have their affine parameters (so that neither a factory nor the
  initialisation pass raises). Then construction fails with the assertion failure exactly
  when that sub-space is not a \<^verbatim>\<open>PointCloudSpace\<close>. When the assertion passes,
  construction completes if every \<^verbatim>\<open>shape[0]\<close> it reads exists (the point-cloud space
  and each auxiliary sub-space has a shape with at least one entry) and, for a dict space,
  a configured \<^verbatim>\<open>state_embed_dim\<close> is not negative; otherwise it fails with
  \<^verbatim>\<open>IndexError\<close>, \<^verbatim>\<open>TypeError\<close> or \<^verbatim>\<open>RuntimeError\<close>.
\<close>

theorem assertion_failure_iff_not_point_cloud_space:
  assumes "factories_ok env tokF peF teF e" and "point_space_of obs_space = Inr ps"
  shows "(fst (init env obs_space tokF peF teF e sed w) = Inl AssertionError
            \<longleftrightarrow> \<not> is_PointCloudSpace ps)
       \<and> (is_PointCloudSpace ps \<and> has_axis ps
            \<and> list_all has_axis (non_points (space_items obs_space))
            \<and> (\<forall>d. is_Dict obs_space \<and> sed = Some d \<longrightarrow> 0 \<le> d)
          \<longrightarrow> (\<exists>self w'. init env obs_space tokF peF teF e sed w = (Inr self, w')))
       \<and> (is_PointCloudSpace ps
            \<and> \<not> (has_axis ps \<and> list_all has_axis (non_points (space_items obs_space))
                   \<and> (\<forall>d. is_Dict obs_space \<and> sed = Some d \<longrightarrow> 0 \<le> d))
          \<longrightarrow> fst (init env obs_space tokF peF teF e sed w)
                \<in> {Inl IndexError, Inl TypeError, Inl RuntimeError})"
proof -
  have completes: "\<exists>self w'. init env obs_space tokF peF teF e sed w = (Inr self, w')"
    if "is_PointCloudSpace ps" "has_axis ps"
      "list_all has_axis (non_points (space_items obs_space))"
      "\<forall>d. is_Dict obs_space \<and> sed = Some d \<longrightarrow> 0 \<le> d"
  proof -
    from has_axis_shape0[OF that(2)] obtain pd where pd: "shape0 ps = Inr pd" by blast
    from has_axis_sum_shape0[OF that(3)]
    have sd: "\<exists>sd. sum_shape0 (non_points (space_items obs_space)) = Inr sd" .
    from that(4) have d: "\<And>d. is_Dict obs_space \<Longrightarrow> sed = Some d \<Longrightarrow> 0 \<le> d" by blast
    from init_returns[OF assms(1) assms(2) that(1) pd sd d] show ?thesis by blast
  qed
  have fails: "fst (init env obs_space tokF peF teF e sed w)
                \<in> {Inl IndexError, Inl TypeError, Inl RuntimeError}"
    if pcs: "is_PointCloudSpace ps"
      and no: "\<not> (has_axis ps \<and> list_all has_axis (non_points (space_items obs_space))
                   \<and> (\<forall>d. is_Dict obs_space \<and> sed = Some d \<longrightarrow> 0 \<le> d))"
  proof (cases "shape0 ps")
    case (Inl err)
    with assms(2) pcs have "init env obs_space tokF peF teF e sed w = (Inl err, w)"
      by (simp add: init_def bindM_apply lift_apply)
    with shape0_Inl[OF Inl] show ?thesis by auto
  next
    case (Inr pd)
    then have ax: "has_axis ps"
      by (auto simp: has_axis_def shape0_def split: option.splits list.splits)
    from init_after_pass[OF assms(1) assms(2) pcs Inr, of sed w] obtain tok pe te pool wh where
      eq: "init env obs_space tokF peF teF e sed w =
     (if is_Dict obs_space then
         bindM (lift (sum_shape0 (non_points (space_items obs_space)))) (\<lambda>sd.
           case sed of
             Some d \<Rightarrow>
               bindM (nn_Linear env sd d) (\<lambda>l.
                 return \<lparr>obs_is_dict = True, tokenizer = tok, pos_embedder = pe,
                         transformer_encoder = te, pooling = pool,
                         state_encoder = Some l, state_dim = d\<rparr>)
           | None \<Rightarrow>
               return \<lparr>obs_is_dict = True, tokenizer = tok, pos_embedder = pe,
                       transformer_encoder = te, pooling = pool,
                       state_encoder = None, state_dim = sd\<rparr>) wh
       else
         (Inr \<lparr>obs_is_dict = False, tokenizer = tok, pos_embedder = pe,
                 transformer_encoder = te, pooling = pool,
                 state_encoder = None, state_dim = 0\<rparr>, wh))"
      by blast
    have dict: "is_Dict obs_space"
    proof (rule ccontr)
      assume "\<not> is_Dict obs_space"
      then have "space_items obs_space = []" by (cases obs_space) auto
      with no ax \<open>\<not> is_Dict obs_space\<close> show False by (simp add: non_points_def)
    qed
    show ?thesis
    proof (cases "sum_shape0 (non_points (space_items obs_space))")
      case (Inl err)
      with eq dict have "init env obs_space tokF peF teF e sed w = (Inl err, wh)"
        by (simp add: bindM_apply lift_apply)
      with sum_shape0_Inl[OF Inl] show ?thesis by auto
    next
      case (Inr sd)
      have "list_all has_axis (non_points (space_items obs_space))"
        using not_has_axis_sum_shape0[of "non_points (space_items obs_space)"] Inr by auto
      with no ax dict obtain d where d: "sed = Some d" "d < 0" by (auto simp: not_le)
      with eq dict Inr show ?thesis
        by (simp add: bindM_apply lift_apply nn_Linear_def)
    qed
  qed
  from completes fails init_assertion_iff[OF assms, of sed w] show ?thesis by blast
qed

theorem assertion_failure_iff_not_point_cloud_space_witness:
  "fst (init (demo_env 4) (OtherSpace (Some [3])) demo_tokenizer demo_pos_embedder
          demo_transformer_encoder 128 None 0) = Inl AssertionError
   \<and> fst (init (demo_env 4) demo_dict_space demo_tokenizer demo_pos_embedder
          demo_transformer_encoder 128 None 0) \<noteq> Inl AssertionError
   \<and> (\<exists>self w'. init (demo_env 4) demo_dict_space demo_tokenizer demo_pos_embedder
          demo_transformer_encoder 128 None 0 = (Inr self, w'))
   \<and> fst (init (demo_env 4) demo_scalar_space demo_tokenizer demo_pos_embedder
          demo_transformer_encoder 128 None 0)
       \<in> {Inl IndexError, Inl TypeError, Inl RuntimeError}"
proof -
  have a: "point_space_of (OtherSpace (Some [3])) = Inr (OtherSpace (Some [3]))"
    by simp
  have b: "point_space_of demo_dict_space = Inr (PointCloudSpace (Some [3]))"
    by (simp add: demo_dict_space_def demo_items_def getitem_def)
  have c: "list_all has_axis (non_points (space_items demo_dict_space))"
    by (simp add: demo_dict_space_def demo_items_def non_points_def has_axis_def)
  have s: "point_space_of demo_scalar_space = Inr (PointCloudSpace (Some [3]))"
    by (simp add: demo_scalar_space_def getitem_def)
  have n: "\<not> list_all has_axis (non_points (space_items demo_scalar_space))"
    by (simp add: demo_scalar_space_def non_points_def has_axis_def)
  from assertion_failure_iff_not_point_cloud_space[OF demo_factories_ok a, of 4 128 None 0]
       assertion_failure_iff_not_point_cloud_space[OF demo_factories_ok b, of 4 128 None 0]
       assertion_failure_iff_not_point_cloud_space[OF demo_factories_ok s, of 4 128 None 0] c n
  show ?thesis by (simp add: has_axis_def)
qed

text \<open>
  The claim as stated fails in its second half: for a dict space whose \<^verbatim>\<open>"points"\<close> entry
  is a point-cloud space and which has an auxiliary sub-space of shape \<open>()\<close>, the assertion
  passes and construction ends with \<^verbatim>\<open>IndexError\<close>.
\<close>

theorem scalar_sub_space_counterexample:
  "point_space_of demo_scalar_space = Inr (PointCloudSpace (Some [3]))
   \<and> is_PointCloudSpace (PointCloudSpace (Some [3]))
   \<and> init (demo_env 4) demo_scalar_space demo_tokenizer demo_pos_embedder
          demo_transformer_encoder 128 None 0 = (Inl IndexError, 12)"
  by (simp add: demo_init_scalar) (simp add: demo_scalar_space_def getitem_def)

end
